theory Spec2Isabelle
  imports Complex_Main "HOL-Library.Word" "HOL-Library.Log_Nat"
begin

unbundle bit_operations_syntax

section \<open>Floating-point values\<close>

text \<open>
  The C++ types \<^verbatim>\<open>float\<close> and \<^verbatim>\<open>double\<close> are the IEEE 754 formats binary32 and
  binary64: finite values, two infinities and NaN. A finite value is kept as the real
  number it denotes; every arithmetic operation computes the exact result and rounds it
  to the format, to the nearest value with ties to even, and a result that rounds beyond
  the largest finite value is an infinity. Arithmetic on infinities and NaN, and
  comparisons (false when an operand is NaN), are those of IEEE 754. The sign of zero is
  not kept: a quotient \<open>x / 0\<close> is taken at \<open>+0\<close>. A decimal literal of a colour or of a
  comparison, such as \<^verbatim>\<open>0.3\<close>, stands for the number it spells.
\<close>

datatype float = Fin real | PInf | MInf | NaN

text \<open>The nearest integer, ties to even.\<close>

definition round_even :: "real \<Rightarrow> int" where
  "round_even x =
     (let n = \<lfloor>x\<rfloor>; d = x - of_int n
      in if d < 1 / 2 then n else if 1 / 2 < d then n + 1 else if even n then n else n + 1)"

text \<open>The exponent of the leading bit of a positive number, \<open>\<lfloor>log\<^sub>2 x\<rfloor>\<close>.\<close>

definition ilog2 :: "real \<Rightarrow> int" where
  "ilog2 x = (if 1 \<le> x then bitlen \<lfloor>x\<rfloor> - 1 else - bitlen (\<lceil>1 / x\<rceil> - 1))"

text \<open>
  Rounding to \<open>p\<close> significant bits with least exponent \<open>emin\<close> (below it the values
  are subnormal and share the quantum of \<open>emin\<close>), with no bound on the exponent above.
\<close>

definition round_to :: "nat \<Rightarrow> int \<Rightarrow> real \<Rightarrow> real" where
  "round_to p emin x =
     (if x = 0 then 0
      else let q = max (ilog2 \<bar>x\<bar>) emin - int p + 1
           in of_int (round_even (x / 2 powi q)) * 2 powi q)"

text \<open>
  Rounding to the format of precision \<open>p\<close> and largest exponent \<open>emax\<close>: overflow gives
  an infinity.
\<close>

definition to_format :: "nat \<Rightarrow> int \<Rightarrow> real \<Rightarrow> float" where
  "to_format p emax x =
     (let r = round_to p (1 - emax) x
      in if 2 powi (emax + 1) \<le> \<bar>r\<bar> then (if 0 < x then PInf else MInf) else Fin r)"

text \<open>Rounding to binary32 (\<^verbatim>\<open>float\<close>) and to binary64 (\<^verbatim>\<open>double\<close>).\<close>

definition flt :: "real \<Rightarrow> float" where
  "flt = to_format 24 127"

definition dbl :: "real \<Rightarrow> float" where
  "dbl = to_format 53 1023"

text \<open>The arithmetic of \<^verbatim>\<open>float\<close>.\<close>

instantiation float :: "{plus,minus,uminus,times,inverse,abs,ord}"
begin

fun plus_float :: "float \<Rightarrow> float \<Rightarrow> float" where
  "plus_float (Fin a) (Fin b) = flt (a + b)"
| "plus_float NaN _ = NaN"
| "plus_float _ NaN = NaN"
| "plus_float PInf MInf = NaN"
| "plus_float MInf PInf = NaN"
| "plus_float PInf _ = PInf"
| "plus_float _ PInf = PInf"
| "plus_float MInf _ = MInf"
| "plus_float _ MInf = MInf"

fun uminus_float :: "float \<Rightarrow> float" where
  "uminus_float (Fin a) = Fin (- a)"
| "uminus_float PInf = MInf"
| "uminus_float MInf = PInf"
| "uminus_float NaN = NaN"

definition minus_float :: "float \<Rightarrow> float \<Rightarrow> float" where
  "minus_float a b = a + (- b)"

fun times_float :: "float \<Rightarrow> float \<Rightarrow> float" where
  "times_float (Fin a) (Fin b) = flt (a * b)"
| "times_float NaN _ = NaN"
| "times_float _ NaN = NaN"
| "times_float PInf (Fin b) = (if b = 0 then NaN else if 0 < b then PInf else MInf)"
| "times_float MInf (Fin b) = (if b = 0 then NaN else if 0 < b then MInf else PInf)"
| "times_float (Fin a) PInf = (if a = 0 then NaN else if 0 < a then PInf else MInf)"
| "times_float (Fin a) MInf = (if a = 0 then NaN else if 0 < a then MInf else PInf)"
| "times_float PInf PInf = PInf"
| "times_float PInf MInf = MInf"
| "times_float MInf PInf = MInf"
| "times_float MInf MInf = PInf"

fun divide_float :: "float \<Rightarrow> float \<Rightarrow> float" where
  "divide_float (Fin a) (Fin b) =
     (if b = 0 then (if a = 0 then NaN else if 0 < a then PInf else MInf) else flt (a / b))"
| "divide_float NaN _ = NaN"
| "divide_float _ NaN = NaN"
| "divide_float (Fin a) PInf = Fin 0"
| "divide_float (Fin a) MInf = Fin 0"
| "divide_float PInf (Fin b) = (if 0 \<le> b then PInf else MInf)"
| "divide_float MInf (Fin b) = (if 0 \<le> b then MInf else PInf)"
| "divide_float PInf PInf = NaN"
| "divide_float PInf MInf = NaN"
| "divide_float MInf PInf = NaN"
| "divide_float MInf MInf = NaN"

definition inverse_float :: "float \<Rightarrow> float" where
  "inverse_float a = divide (Fin 1) a"

fun abs_float :: "float \<Rightarrow> float" where
  "abs_float (Fin a) = Fin \<bar>a\<bar>"
| "abs_float PInf = PInf"
| "abs_float MInf = PInf"
| "abs_float NaN = NaN"

fun less_float :: "float \<Rightarrow> float \<Rightarrow> bool" where
  "less_float (Fin a) (Fin b) = (a < b)"
| "less_float NaN _ = False"
| "less_float _ NaN = False"
| "less_float _ MInf = False"
| "less_float PInf _ = False"
| "less_float MInf _ = True"
| "less_float _ PInf = True"

fun less_eq_float :: "float \<Rightarrow> float \<Rightarrow> bool" where
  "less_eq_float (Fin a) (Fin b) = (a \<le> b)"
| "less_eq_float NaN _ = False"
| "less_eq_float _ NaN = False"
| "less_eq_float MInf _ = True"
| "less_eq_float _ PInf = True"
| "less_eq_float _ MInf = False"
| "less_eq_float PInf _ = False"

instance ..

end

text \<open>\<^verbatim>\<open>sqrtf\<close>, correctly rounded; NaN below zero.\<close>

fun sqrtf :: "float \<Rightarrow> float" where
  "sqrtf (Fin a) = (if a < 0 then NaN else flt (sqrt a))"
| "sqrtf PInf = PInf"
| "sqrtf MInf = NaN"
| "sqrtf NaN = NaN"

text \<open>
  The arithmetic of \<^verbatim>\<open>double\<close>, for the expressions that a \<^verbatim>\<open>double\<close> literal
  promotes. A \<^verbatim>\<open>float\<close> operand is promoted without change of value; \<open>to_float\<close> is
  the conversion back.
\<close>

fun double_add :: "float \<Rightarrow> float \<Rightarrow> float" where
  "double_add (Fin a) (Fin b) = dbl (a + b)"
| "double_add a b = a + b"

fun double_mult :: "float \<Rightarrow> float \<Rightarrow> float" where
  "double_mult (Fin a) (Fin b) = dbl (a * b)"
| "double_mult a b = a * b"

fun double_divide :: "float \<Rightarrow> float \<Rightarrow> float" where
  "double_divide (Fin a) (Fin b) =
     (if b = 0 then (if a = 0 then NaN else if 0 < a then PInf else MInf) else dbl (a / b))"
| "double_divide a b = a / b"

fun to_float :: "float \<Rightarrow> float" where
  "to_float (Fin a) = flt a"
| "to_float a = a"

text \<open>
  \<^verbatim>\<open>std::max(a, b)\<close> is \<^verbatim>\<open>(a < b) ? b : a\<close> and \<^verbatim>\<open>std::min(a, b)\<close> is
  \<^verbatim>\<open>(b < a) ? b : a\<close>: with a NaN argument the comparison is false and the first
  argument is returned.
\<close>

definition std_max :: "float \<Rightarrow> float \<Rightarrow> float" where
  "std_max a b = (if a < b then b else a)"

definition std_min :: "float \<Rightarrow> float \<Rightarrow> float" where
  "std_min a b = (if b < a then b else a)"

text \<open>\<^verbatim>\<open>std::numeric_limits<float>::max()\<close>, the largest finite binary32 value.\<close>

definition FLT_MAX :: float where
  "FLT_MAX = Fin (2 ^ 128 - 2 ^ 104)"

text \<open>
  Conversion of a floating-point value to \<^verbatim>\<open>int\<close> truncates toward zero. Outside the
  range of a 32-bit \<^verbatim>\<open>int\<close> (and for an infinity or NaN) the C++ conversion is
  undefined; the value written here for that case is the one x86 produces. The program
  converts only coordinates that a guard has bounded.
\<close>

definition c_int :: "float \<Rightarrow> int" where
  "c_int f =
     (case f of
        Fin r \<Rightarrow>
          (if - (2 ^ 31) - 1 < r \<and> r < 2 ^ 31
           then (if 0 \<le> r then \<lfloor>r\<rfloor> else \<lceil>r\<rceil>)
           else - (2 ^ 31))
      | _ \<Rightarrow> - (2 ^ 31))"

text \<open>
  \<^verbatim>\<open>powf\<close> as Annex F of the C standard gives it, taken as correctly rounded. The
  program calls it with a base that \<^verbatim>\<open>std::max(0.f, _)\<close> has made non-negative.
\<close>

definition powf :: "float \<Rightarrow> float \<Rightarrow> float" where
  "powf x y =
     (if y = Fin 0 \<or> x = Fin 1 then Fin 1
      else case (x, y) of
        (NaN, _) \<Rightarrow> NaN
      | (_, NaN) \<Rightarrow> NaN
      | (Fin a, Fin b) \<Rightarrow>
          (if a = 0 then (if b < 0 then PInf else Fin 0)
           else if 0 < a then flt (a powr b)
           else if of_int \<lfloor>b\<rfloor> = b
             then flt (if odd \<lfloor>b\<rfloor> then - (\<bar>a\<bar> powr b) else \<bar>a\<bar> powr b)
           else NaN)
      | (Fin a, PInf) \<Rightarrow> (if \<bar>a\<bar> < 1 then Fin 0 else if \<bar>a\<bar> = 1 then Fin 1 else PInf)
      | (Fin a, MInf) \<Rightarrow> (if \<bar>a\<bar> < 1 then PInf else if \<bar>a\<bar> = 1 then Fin 1 else Fin 0)
      | (PInf, Fin b) \<Rightarrow> (if b < 0 then Fin 0 else PInf)
      | (PInf, PInf) \<Rightarrow> PInf
      | (PInf, MInf) \<Rightarrow> Fin 0
      | (MInf, Fin b) \<Rightarrow>
          (if b < 0 then Fin 0
           else if of_int \<lfloor>b\<rfloor> = b \<and> odd \<lfloor>b\<rfloor> then MInf else PInf)
      | (MInf, PInf) \<Rightarrow> PInf
      | (MInf, MInf) \<Rightarrow> Fin 0)"

section \<open>Vectors (geometry.h)\<close>

text \<open>
  \<^verbatim>\<open>geometry.h\<close> is not among the sources. The specification names its operations (add,
  subtract, scale, dot product, normalize, magnitude, component access) and calls them
  standard; \<^verbatim>\<open>main.cpp\<close> fixes how they are written.
\<close>

text \<open>Modelled from the spec: \<^verbatim>\<open>Vec3f\<close>, three components \<^verbatim>\<open>x\<close>, \<^verbatim>\<open>y\<close>, \<^verbatim>\<open>z\<close>.\<close>

datatype Vec3f = Vec3f (vx: float) (vy: float) (vz: float)

text \<open>Modelled from the spec: \<^verbatim>\<open>Vec4f\<close>, four components read by index 0 to 3.\<close>

datatype Vec4f = Vec4f (v0: float) (v1: float) (v2: float) (v3: float)

text \<open>Modelled from the spec: add, subtract and negate, componentwise.\<close>

instantiation Vec3f :: "{plus,minus,uminus}"
begin

definition plus_Vec3f :: "Vec3f \<Rightarrow> Vec3f \<Rightarrow> Vec3f" where
  "plus_Vec3f a b = Vec3f (vx a + vx b) (vy a + vy b) (vz a + vz b)"

definition minus_Vec3f :: "Vec3f \<Rightarrow> Vec3f \<Rightarrow> Vec3f" where
  "minus_Vec3f a b = Vec3f (vx a - vx b) (vy a - vy b) (vz a - vz b)"

definition uminus_Vec3f :: "Vec3f \<Rightarrow> Vec3f" where
  "uminus_Vec3f a = Vec3f (- vx a) (- vy a) (- vz a)"

instance ..

end

text \<open>Modelled from the spec: scale, the product of a vector and a number.\<close>

definition vscale :: "Vec3f \<Rightarrow> float \<Rightarrow> Vec3f" where
  "vscale a f = Vec3f (vx a * f) (vy a * f) (vz a * f)"

text \<open>
  Modelled from the spec: scale by a number of type \<^verbatim>\<open>double\<close>. The number keeps its
  type, so each product is a \<^verbatim>\<open>double\<close> operation whose result is converted to
  \<^verbatim>\<open>float\<close> when it is stored in the vector.
\<close>

definition vscale_double :: "Vec3f \<Rightarrow> float \<Rightarrow> Vec3f" where
  "vscale_double a f =
     Vec3f (to_float (double_mult (vx a) f)) (to_float (double_mult (vy a) f))
       (to_float (double_mult (vz a) f))"

text \<open>Modelled from the spec: dot product, the product of two vectors.\<close>

definition dot :: "Vec3f \<Rightarrow> Vec3f \<Rightarrow> float" where
  "dot a b = vx a * vx b + vy a * vy b + vz a * vz b"

text \<open>Modelled from the spec: magnitude, \<^verbatim>\<open>norm()\<close>.\<close>

definition norm3 :: "Vec3f \<Rightarrow> float" where
  "norm3 a = sqrtf (vx a * vx a + vy a * vy a + vz a * vz a)"

text \<open>
  Modelled from the spec: normalize, the vector scaled by the reciprocal of its
  magnitude. The specification gives no other result for the zero vector.
\<close>

definition normalize :: "Vec3f \<Rightarrow> Vec3f" where
  "normalize a = vscale a (Fin 1 / norm3 a)"

text \<open>Modelled from the spec: the default constructor, taken to give the zero vector.\<close>

definition Vec3f_default :: Vec3f where
  "Vec3f_default = Vec3f (Fin 0) (Fin 0) (Fin 0)"

text \<open>A vector with finite components.\<close>

abbreviation fvec :: "real \<Rightarrow> real \<Rightarrow> real \<Rightarrow> Vec3f" where
  "fvec a b c \<equiv> Vec3f (Fin a) (Fin b) (Fin c)"

section \<open>Scene data (main.cpp)\<close>

definition MAXDEPTH :: nat where
  "MAXDEPTH = 10"

definition BACKGROUNDCOLOR :: Vec3f where
  "BACKGROUNDCOLOR = Vec3f (Fin (3 / 10)) (Fin (2 / 10)) (Fin (3 / 10))"

record Light =
  position :: Vec3f
  intensity :: float

record Material =
  refractive_index :: float
  albedo :: Vec4f
  diffuse_color :: Vec3f
  specular_exponent :: float

text \<open>The constructor \<^verbatim>\<open>Material()\<close>.\<close>

definition Material_default :: Material where
  "Material_default =
     \<lparr>refractive_index = Fin 1,
      albedo = Vec4f (Fin 1) (Fin 0) (Fin 0) (Fin 0),
      diffuse_color = Vec3f_default,
      specular_exponent = Fin 0\<rparr>"

record Sphere =
  center :: Vec3f
  radius :: float
  material :: Material

text \<open>
  The invariants of the data model: finite coordinates, unit directions, spheres with a
  finite centre and a finite positive radius. \<open>has_NaN\<close> holds of a vector with a NaN
  component.
\<close>

fun is_fin :: "float \<Rightarrow> bool" where
  "is_fin (Fin a) = True"
| "is_fin _ = False"

text \<open>A finite value of binary32: a number that rounding to the format leaves as it is.\<close>

fun finite32 :: "float \<Rightarrow> bool" where
  "finite32 (Fin r) = (flt r = Fin r)"
| "finite32 _ = False"

definition fin3 :: "Vec3f \<Rightarrow> bool" where
  "fin3 v = (is_fin (vx v) \<and> is_fin (vy v) \<and> is_fin (vz v))"

definition unit3 :: "Vec3f \<Rightarrow> bool" where
  "unit3 v = (fin3 v \<and> dot v v = Fin 1)"

definition has_NaN :: "Vec3f \<Rightarrow> bool" where
  "has_NaN v = (vx v = NaN \<or> vy v = NaN \<or> vz v = NaN)"

definition proper_sphere :: "Sphere \<Rightarrow> bool" where
  "proper_sphere s = (fin3 (center s) \<and> is_fin (radius s) \<and> Fin 0 < radius s)"

section \<open>Intersection\<close>

text \<open>
  \<^verbatim>\<open>Sphere::rayIntersect\<close> returns a flag and writes the distance through \<^verbatim>\<open>t0\<close>.
  The only caller reads \<^verbatim>\<open>t0\<close> when the flag is true, so the model returns
  \<open>Some t0\<close> for true and \<open>None\<close> for false.
\<close>

definition rayIntersect :: "Sphere \<Rightarrow> Vec3f \<Rightarrow> Vec3f \<Rightarrow> float option" where
  "rayIntersect s orig dir =
     (let oc = center s - orig;
          tca = dot oc dir;
          d2 = dot oc oc - tca * tca
      in if d2 > radius s * radius s then None
         else
           let thc = sqrtf (radius s * radius s - d2);
               t0 = tca - thc;
               t1 = tca + thc;
               t0 = (if t0 < Fin 0 then t1 else t0)
           in if t0 \<ge> Fin 0 then Some t0 else None)"

definition reflect :: "Vec3f \<Rightarrow> Vec3f \<Rightarrow> Vec3f" where
  "reflect I N = I - vscale (vscale N (Fin 2)) (dot I N)"

text \<open>
  \<^verbatim>\<open>refract\<close> calls itself. Nothing is assumed about the call ending: the result is
  \<open>None\<close> when it does not.
\<close>

partial_function (option) refract :: "Vec3f \<Rightarrow> Vec3f \<Rightarrow> float \<Rightarrow> float \<Rightarrow> Vec3f option" where
  "refract I N eta_t eta_i =
     (let cosi = - std_max (Fin (- 1)) (std_min (Fin 1) (dot I N))
      in if cosi < Fin 0 then refract I (- N) eta_i eta_t
         else
           let eta = eta_i / eta_t;
               k = Fin 1 - eta * eta * (Fin 1 - cosi * cosi)
           in Some (if k < Fin 0 then Vec3f (Fin 1) (Fin 0) (Fin 0)
                    else vscale I eta + vscale N (eta * cosi - sqrtf k)))"

text \<open>
  Names for the locals of one activation of \<^verbatim>\<open>refract\<close>: \<^verbatim>\<open>cosi\<close>, \<^verbatim>\<open>k\<close>, and the value
  of the \<^verbatim>\<open>return\<close> statement of an activation that does not call itself.
\<close>

definition refract_cosi :: "Vec3f \<Rightarrow> Vec3f \<Rightarrow> float" where
  "refract_cosi I N = - std_max (Fin (- 1)) (std_min (Fin 1) (dot I N))"

definition refract_k :: "Vec3f \<Rightarrow> Vec3f \<Rightarrow> float \<Rightarrow> float \<Rightarrow> float" where
  "refract_k I N eta_t eta_i =
     (let cosi = refract_cosi I N; eta = eta_i / eta_t
      in Fin 1 - eta * eta * (Fin 1 - cosi * cosi))"

definition refract_direct :: "Vec3f \<Rightarrow> Vec3f \<Rightarrow> float \<Rightarrow> float \<Rightarrow> Vec3f" where
  "refract_direct I N eta_t eta_i =
     (let cosi = refract_cosi I N; eta = eta_i / eta_t; k = refract_k I N eta_t eta_i
      in if k < Fin 0 then Vec3f (Fin 1) (Fin 0) (Fin 0)
         else vscale I eta + vscale N (eta * cosi - sqrtf k))"

text \<open>
  The two shades of the checkerboard, chosen by the low bit of an \<^verbatim>\<open>int\<close> sum. The
  literal \<^verbatim>\<open>.5\<close> makes both products and the sum \<^verbatim>\<open>double\<close> operations.
\<close>

definition checker_color :: "Vec3f \<Rightarrow> Vec3f" where
  "checker_color hit =
     (if (c_int (double_add (double_mult (Fin (1 / 2)) (vx hit)) (Fin 1000))
            + c_int (double_mult (Fin (1 / 2)) (vz hit))) AND 1 \<noteq> 0
      then Vec3f (Fin (3 / 10)) (Fin (3 / 10)) (Fin (3 / 10))
      else Vec3f (Fin (1 / 10)) (Fin (1 / 10)) (Fin (1 / 10)))"

text \<open>
  The loop over the spheres of \<^verbatim>\<open>sceneIntersect\<close>. Its state is \<^verbatim>\<open>spheres_dist\<close> and
  the three output parameters \<^verbatim>\<open>hit\<close>, \<^verbatim>\<open>N\<close>, \<^verbatim>\<open>material\<close>.
\<close>

fun spheres_loop ::
  "Vec3f \<Rightarrow> Vec3f \<Rightarrow> Sphere list \<Rightarrow> float \<times> Vec3f \<times> Vec3f \<times> Material
     \<Rightarrow> float \<times> Vec3f \<times> Vec3f \<times> Material" where
  "spheres_loop orig dir [] st = st"
| "spheres_loop orig dir (s # ss) (spheres_dist, hit, N, mat) =
     (case rayIntersect s orig dir of
        None \<Rightarrow> spheres_loop orig dir ss (spheres_dist, hit, N, mat)
      | Some dist_i \<Rightarrow>
          if dist_i < spheres_dist
          then
            let hit' = orig + vscale dir dist_i
            in spheres_loop orig dir ss (dist_i, hit', normalize (hit' - center s), material s)
          else spheres_loop orig dir ss (spheres_dist, hit, N, mat))"

text \<open>
  The checkerboard block of \<^verbatim>\<open>sceneIntersect\<close>: from \<^verbatim>\<open>spheres_dist\<close> and the output
  parameters as the loop left them to \<^verbatim>\<open>checkerboard_dist\<close> and the output parameters.
\<close>

definition checkerboard ::
  "Vec3f \<Rightarrow> Vec3f \<Rightarrow> float \<times> Vec3f \<times> Vec3f \<times> Material
     \<Rightarrow> float \<times> Vec3f \<times> Vec3f \<times> Material" where
  "checkerboard orig dir st =
     (case st of (spheres_dist, hit, N, mat) \<Rightarrow>
        if \<bar>vy dir\<bar> > Fin (1 / 1000)
        then
          let distance = - (vy orig + Fin 5) / vy dir;
              pt = orig + vscale dir distance
          in if distance > Fin 0 \<and> \<bar>vx pt\<bar> < Fin 10 \<and> vz pt < Fin (- 10)
                \<and> vz pt > Fin (- 30) \<and> distance < spheres_dist
             then (distance, pt, Vec3f (Fin 0) (Fin 1) (Fin 0),
                   mat\<lparr>diffuse_color := checker_color pt\<rparr>)
             else (FLT_MAX, hit, N, mat)
        else (FLT_MAX, hit, N, mat))"

text \<open>
  \<^verbatim>\<open>sceneIntersect\<close> takes the output parameters as the caller holds them and returns
  the flag with their final values.
\<close>

definition sceneIntersect ::
  "Vec3f \<Rightarrow> Vec3f \<Rightarrow> Sphere list \<Rightarrow> Vec3f \<Rightarrow> Vec3f \<Rightarrow> Material
     \<Rightarrow> bool \<times> Vec3f \<times> Vec3f \<times> Material" where
  "sceneIntersect orig dir spheres hit N mat =
     (let st = spheres_loop orig dir spheres (FLT_MAX, hit, N, mat);
          spheres_dist = fst st
      in case checkerboard orig dir st of
           (checkerboard_dist, hit', N', mat') \<Rightarrow>
             (std_min spheres_dist checkerboard_dist < Fin 1000, hit', N', mat'))"

section \<open>Shading\<close>

text \<open>
  The spawn point of a secondary ray: the hit point moved by \<^verbatim>\<open>1e-3\<close> along the normal,
  against it when the new direction points into the surface. The literal is a
  \<^verbatim>\<open>double\<close>, the binary64 value nearest to one thousandth.
\<close>

definition offset_orig :: "Vec3f \<Rightarrow> Vec3f \<Rightarrow> Vec3f \<Rightarrow> Vec3f" where
  "offset_orig d point N =
     (if dot d N < Fin 0 then point - vscale_double N (dbl (1 / 1000))
      else point + vscale_double N (dbl (1 / 1000)))"

text \<open>
  The loop over the lights of \<^verbatim>\<open>rayCaster\<close>; the accumulator is
  (\<^verbatim>\<open>diffuse_light_intensity\<close>, \<^verbatim>\<open>specular_light_intensity\<close>). The \<^verbatim>\<open>continue\<close> of
  the source is the branch that leaves the accumulator as it is.
\<close>

fun lights_loop ::
  "Vec3f \<Rightarrow> Sphere list \<Rightarrow> Vec3f \<Rightarrow> Vec3f \<Rightarrow> Material \<Rightarrow> Light list
     \<Rightarrow> float \<times> float \<Rightarrow> float \<times> float" where
  "lights_loop dir spheres point N mat [] acc = acc"
| "lights_loop dir spheres point N mat (l # ls) (diffuse_light_intensity, specular_light_intensity) =
     (let light_dir = normalize (position l - point);
          light_distance = norm3 (position l - point);
          shadow_orig = offset_orig light_dir point N
      in case sceneIntersect shadow_orig light_dir spheres Vec3f_default Vec3f_default
                Material_default of
           (shadowed, shadow_pt, shadow_N, tmpmaterial) \<Rightarrow>
             if shadowed \<and> norm3 (shadow_pt - shadow_orig) < light_distance
             then lights_loop dir spheres point N mat ls
                    (diffuse_light_intensity, specular_light_intensity)
             else lights_loop dir spheres point N mat ls
                    (diffuse_light_intensity + intensity l * std_max (Fin 0) (dot light_dir N),
                     specular_light_intensity
                       + powf (std_max (Fin 0) (dot (- reflect (- light_dir) N) dir))
                           (specular_exponent mat) * intensity l))"

text \<open>The \<^verbatim>\<open>return\<close> expression of \<^verbatim>\<open>rayCaster\<close>.\<close>

definition combine :: "Material \<Rightarrow> float \<times> float \<Rightarrow> Vec3f \<Rightarrow> Vec3f \<Rightarrow> Vec3f" where
  "combine mat li reflectColor refractColor =
     vscale (vscale (diffuse_color mat) (fst li)) (v0 (albedo mat))
       + vscale (vscale (Vec3f (Fin 1) (Fin 1) (Fin 1)) (snd li)) (v1 (albedo mat))
       + vscale reflectColor (v2 (albedo mat))
       + vscale refractColor (v3 (albedo mat))"

text \<open>
  \<^verbatim>\<open>rayCaster\<close>. The depth is a \<^verbatim>\<open>size_t\<close>; it is incremented only where it is at
  most \<^verbatim>\<open>MAXDEPTH\<close>, so it cannot wrap and is a natural number here. The result is
  \<open>None\<close> when the call does not return.
\<close>

partial_function (option) rayCaster ::
  "Vec3f \<Rightarrow> Vec3f \<Rightarrow> Sphere list \<Rightarrow> Light list \<Rightarrow> nat \<Rightarrow> Vec3f option" where
  "rayCaster orig dir spheres lights depth =
     (if depth > MAXDEPTH then Some BACKGROUNDCOLOR
      else
        case sceneIntersect orig dir spheres Vec3f_default Vec3f_default Material_default of
          (isect, point, N, mat) \<Rightarrow>
            if \<not> isect then Some BACKGROUNDCOLOR
            else
              let reflectDir = normalize (reflect dir N)
              in Option.bind (refract dir N (refractive_index mat) (Fin 1)) (\<lambda>refracted.
                 let refractDir = normalize refracted;
                     reflectOrig = offset_orig reflectDir point N;
                     refractOrig = offset_orig refractDir point N
                 in Option.bind (rayCaster reflectOrig reflectDir spheres lights (depth + 1))
                      (\<lambda>reflectColor.
                 Option.bind (rayCaster refractOrig refractDir spheres lights (depth + 1))
                      (\<lambda>refractColor.
                 Some (combine mat
                         (lights_loop dir spheres point N mat lights (Fin 0, Fin 0))
                         reflectColor refractColor)))))"

section \<open>Tone mapping (render)\<close>

text \<open>
  Of \<^verbatim>\<open>render\<close> the output loop is modelled, pixel by pixel; the loop that casts the
  primary rays fills the frame buffer with results of \<^verbatim>\<open>rayCaster\<close>. This is the
  scaling step of the output loop: the reciprocal \<^verbatim>\<open>1. / max\<close> is a \<^verbatim>\<open>double\<close>
  quotient, and the vector is scaled by it in \<^verbatim>\<open>double\<close>.
\<close>

definition tone_map :: "Vec3f \<Rightarrow> Vec3f" where
  "tone_map c =
     (let mx = std_max (vx c) (std_max (vy c) (vz c))
      in if mx > Fin 1 then vscale_double c (double_divide (Fin 1) mx) else c)"

text \<open>
  One channel written to the file: clamped, multiplied by 255 (a \<^verbatim>\<open>float\<close> product)
  and converted to \<^verbatim>\<open>char\<close>. The conversion truncates; the byte is the low eight bits
  of the truncated value.
\<close>

definition clamp01 :: "float \<Rightarrow> float" where
  "clamp01 f = std_max (Fin 0) (std_min (Fin 1) f)"

definition channel_byte :: "float \<Rightarrow> 8 word" where
  "channel_byte f = word_of_int (c_int (Fin 255 * clamp01 f))"

definition pixel_bytes :: "Vec3f \<Rightarrow> 8 word list" where
  "pixel_bytes c =
     (let c' = tone_map c in [channel_byte (vx c'), channel_byte (vy c'), channel_byte (vz c')])"

section \<open>Rounding\<close>

lemma round_even_of_int [simp]: "round_even (of_int n) = n"
  by (simp add: round_even_def)

lemma round_even_uminus: "round_even (- x) = - round_even x"
proof (cases "x = of_int \<lfloor>x\<rfloor>")
  case True
  then obtain n where "x = of_int n" ..
  then show ?thesis by (simp flip: of_int_minus)
next
  case False
  then have c: "\<lceil>x\<rceil> = \<lfloor>x\<rfloor> + 1" by (simp add: ceiling_altdef)
  have f: "\<lfloor>- x\<rfloor> = - \<lfloor>x\<rfloor> - 1" using c by (simp add: floor_minus)
  show ?thesis
    by (auto simp: round_even_def Let_def f)
qed

lemma round_even_le: "x \<le> of_int n \<Longrightarrow> round_even x \<le> n"
  by (auto simp: round_even_def Let_def floor_le_iff le_floor_iff)

lemma round_even_ge: "of_int n \<le> x \<Longrightarrow> n \<le> round_even x"
proof -
  assume "of_int n \<le> x"
  then have "n \<le> \<lfloor>x\<rfloor>" by (simp add: le_floor_iff)
  then show ?thesis by (auto simp: round_even_def Let_def)
qed

lemma ilog2_bounds:
  assumes "0 < x"
  shows "2 powi ilog2 x \<le> x \<and> x < 2 powi (ilog2 x + 1)"
proof (cases "1 \<le> x")
  case True
  define n where "n = \<lfloor>x\<rfloor>"
  have n: "0 < n" using True by (simp add: n_def)
  from bitlen_bounds [OF n]
  have b: "2 ^ nat (bitlen n - 1) \<le> n" "n < 2 ^ nat (bitlen n)" by simp_all
  have b1: "1 \<le> bitlen n" using n by (simp add: bitlen_alt_def)
  have "(2 :: real) ^ nat (bitlen n - 1) \<le> of_int n"
    using b(1) by (metis of_int_le_iff of_int_numeral of_int_power)
  also have "\<dots> \<le> x" by (simp add: n_def)
  finally have lo: "2 ^ nat (bitlen n - 1) \<le> x" .
  have "n + 1 \<le> 2 ^ nat (bitlen n)" using b(2) by simp
  then have "of_int (n + 1) \<le> (2 :: real) ^ nat (bitlen n)"
    by (metis of_int_le_iff of_int_numeral of_int_power)
  moreover have "x < of_int (n + 1)" by (simp add: n_def)
  ultimately have hi: "x < 2 ^ nat (bitlen n)" by linarith
  show ?thesis
    using True lo hi b1 by (simp add: ilog2_def n_def [symmetric] power_int_def)
next
  case False
  define y where "y = 1 / x"
  define c where "c = \<lceil>y\<rceil>"
  have y1: "1 < y" using False assms by (simp add: y_def)
  have c2: "2 \<le> c" using y1 by (simp add: c_def le_ceiling_iff)
  then have c1: "0 < c - 1" by simp
  from bitlen_bounds [OF c1]
  have b: "2 ^ nat (bitlen (c - 1) - 1) \<le> c - 1" "c - 1 < 2 ^ nat (bitlen (c - 1))" by simp_all
  have b1: "1 \<le> bitlen (c - 1)" using c1 by (simp add: bitlen_alt_def)
  define k where "k = bitlen (c - 1)"
  have "(2 :: real) ^ nat (k - 1) \<le> of_int (c - 1)"
    using b(1) unfolding k_def by (metis of_int_le_iff of_int_numeral of_int_power)
  also have "\<dots> < y" by (simp add: c_def) linarith
  finally have lo: "2 ^ nat (k - 1) < y" .
  have "c \<le> 2 ^ nat k" using b(2) unfolding k_def by simp
  then have "of_int c \<le> (2 :: real) ^ nat k"
    by (metis of_int_le_iff of_int_numeral of_int_power)
  moreover have "y \<le> of_int c" by (simp add: c_def)
  ultimately have hi: "y \<le> 2 ^ nat k" by linarith
  have x: "x = 1 / y" by (simp add: y_def)
  have y0: "0 < y" using y1 by simp
  have i: "ilog2 x = - k" using False by (simp add: ilog2_def k_def c_def y_def)
  have k1: "1 \<le> k" using b1 by (simp add: k_def)
  have p1: "(2 :: real) powi (- k) = 1 / 2 ^ nat k"
    using k1 by (simp add: power_int_def field_simps)
  have p2: "(2 :: real) powi (- k + 1) = 1 / 2 ^ nat (k - 1)"
  proof (cases "k = 1")
    case True
    then show ?thesis by simp
  next
    case False
    then have "- k + 1 < 0" using k1 by simp
    moreover have "nat (- (- k + 1)) = nat (k - 1)" by simp
    ultimately show ?thesis by (simp add: power_int_def field_simps)
  qed
  have "1 / 2 ^ nat k \<le> x" unfolding x using hi y0 by (simp add: frac_le)
  moreover have "x < 1 / 2 ^ nat (k - 1)" unfolding x using lo y0 by (simp add: frac_less2)
  ultimately show ?thesis unfolding i p1 p2 by simp
qed

lemma ilog2_unique:
  assumes "0 < x" "2 powi k \<le> x" "x < 2 powi (k + 1)"
  shows "ilog2 x = k"
proof -
  from ilog2_bounds [OF assms(1)]
  have b: "2 powi ilog2 x \<le> x" "x < 2 powi (ilog2 x + 1)" by simp_all
  have "\<not> k + 1 \<le> ilog2 x"
  proof
    assume "k + 1 \<le> ilog2 x"
    then have "(2 :: real) powi (k + 1) \<le> 2 powi ilog2 x" by (intro power_int_increasing) simp_all
    then show False using b(1) assms(3) by linarith
  qed
  moreover have "\<not> ilog2 x + 1 \<le> k"
  proof
    assume "ilog2 x + 1 \<le> k"
    then have "(2 :: real) powi (ilog2 x + 1) \<le> 2 powi k" by (intro power_int_increasing) simp_all
    then show False using b(2) assms(2) by linarith
  qed
  ultimately show ?thesis by linarith
qed


lemma ilog2_less:
  assumes "0 < x" "x < 2 powi k"
  shows "ilog2 x < k"
proof (rule ccontr)
  assume "\<not> ilog2 x < k"
  then have "(2 :: real) powi k \<le> 2 powi ilog2 x" by (intro power_int_increasing) simp_all
  then show False using ilog2_bounds [OF assms(1)] assms(2) by linarith
qed

lemma round_to_0 [simp]: "round_to p emin 0 = 0"
  by (simp add: round_to_def)

lemma round_to_uminus: "round_to p emin (- x) = - round_to p emin x"
  by (simp add: round_to_def Let_def round_even_uminus)

text \<open>The quantum of a number below a representable bound divides the bound.\<close>

lemma quantum_le:
  assumes x: "x \<noteq> 0" and b: "\<bar>x\<bar> \<le> of_int m * 2 powi e" and m: "m < 2 ^ p"
    and e: "emin - int p + 1 \<le> e"
  shows "max (ilog2 \<bar>x\<bar>) emin - int p + 1 \<le> e"
proof -
  have "of_int m * 2 powi e < (2 :: real) ^ p * 2 powi e"
    using m by (simp add: of_int_less_iff [of m "2 ^ p", where ?'a = real, simplified])
  also have "\<dots> = 2 powi (int p + e)" by (simp add: power_int_add)
  finally have "\<bar>x\<bar> < 2 powi (int p + e)" using b by linarith
  then have "ilog2 \<bar>x\<bar> < int p + e" using x by (intro ilog2_less) simp_all
  then show ?thesis using e by simp
qed

lemma scaled_int:
  assumes "q \<le> e"
  shows "of_int m * 2 powi e / 2 powi q = (of_int (m * 2 ^ nat (e - q)) :: real)"
proof -
  have "(2 :: real) powi e = 2 powi (e - q) * 2 powi q" by (simp flip: power_int_add)
  then show ?thesis using assms by (simp add: power_int_def)
qed

lemma round_to_exact:
  assumes m: "\<bar>m\<bar> < 2 ^ p" and e: "emin - int p + 1 \<le> e"
  shows "round_to p emin (of_int m * 2 powi e) = of_int m * 2 powi e"
proof (cases "m = 0")
  case True
  then show ?thesis by simp
next
  case False
  define x :: real where "x = of_int m * 2 powi e"
  define q where "q = max (ilog2 \<bar>x\<bar>) emin - int p + 1"
  have x0: "x \<noteq> 0" using False by (simp add: x_def)
  have "\<bar>x\<bar> = of_int \<bar>m\<bar> * 2 powi e" by (simp add: x_def abs_mult)
  then have qe: "q \<le> e" unfolding q_def using x0 m e by (intro quantum_le [of x "\<bar>m\<bar>"]) simp_all
  have "x / 2 powi q = of_int (m * 2 ^ nat (e - q))" unfolding x_def by (rule scaled_int [OF qe])
  then have "of_int (round_even (x / 2 powi q)) * 2 powi q = x / 2 powi q * 2 powi q"
    by (simp del: of_int_mult of_int_power)
  also have "\<dots> = x" by simp
  finally show ?thesis using x0 by (simp add: round_to_def Let_def q_def x_def)
qed

lemma round_to_bound:
  assumes b: "\<bar>x\<bar> \<le> of_int m * 2 powi e" and m: "m < 2 ^ p" and e: "emin - int p + 1 \<le> e"
  shows "\<bar>round_to p emin x\<bar> \<le> of_int m * 2 powi e"
proof (cases "x = 0")
  case True
  then show ?thesis using b by simp
next
  case False
  define q where "q = max (ilog2 \<bar>x\<bar>) emin - int p + 1"
  define B where "B = m * 2 ^ nat (e - q)"
  have qe: "q \<le> e" unfolding q_def using False b m e by (rule quantum_le)
  have B: "of_int m * 2 powi e / 2 powi q = (of_int B :: real)"
    unfolding B_def by (rule scaled_int [OF qe])
  have p: "(0 :: real) < 2 powi q" by simp
  have B': "of_int m * 2 powi e = (of_int B :: real) * 2 powi q"
    unfolding B [symmetric] by simp
  have "x \<le> of_int B * 2 powi q" "- (of_int B * 2 powi q) \<le> x"
    using b unfolding B' by linarith+
  then have "x / 2 powi q \<le> of_int B" "of_int (- B) \<le> x / 2 powi q"
    using p by (simp_all add: field_simps)
  then have "round_even (x / 2 powi q) \<le> B" "- B \<le> round_even (x / 2 powi q)"
    by (auto intro: round_even_le round_even_ge)
  then have "\<bar>real_of_int (round_even (x / 2 powi q))\<bar> \<le> of_int B" by linarith
  then have "\<bar>real_of_int (round_even (x / 2 powi q))\<bar> * 2 powi q \<le> of_int B * 2 powi q"
    using p by (simp del: of_int_mult of_int_power)
  also have "real_of_int B * 2 powi q = of_int m * 2 powi e" by (rule B' [symmetric])
  finally show ?thesis using False by (simp add: round_to_def Let_def q_def abs_mult)
qed

lemma round_to_nonneg: "0 \<le> x \<Longrightarrow> 0 \<le> round_to p emin x"
  using round_even_ge [of 0] by (simp add: round_to_def Let_def)

lemma round_to_nonpos: "x \<le> 0 \<Longrightarrow> round_to p emin x \<le> 0"
  using round_to_nonneg [of "- x" p emin] by (simp add: round_to_uminus)

section \<open>Rounding to a format\<close>

lemma pow2_not_le_0 [simp]: "\<not> (2 :: real) powi k \<le> 0"
  using zero_less_power_int [of "2 :: real" k] by linarith

lemma to_format_0 [simp]: "to_format p emax 0 = Fin 0"
  by (simp add: to_format_def)

lemma to_format_uminus: "to_format p emax (- x) = - to_format p emax x"
  by (auto simp: to_format_def Let_def round_to_uminus)

lemma to_format_exact:
  assumes "\<bar>m\<bar> < 2 ^ p" "2 - emax - int p \<le> e" "\<bar>of_int m * 2 powi e\<bar> < (2 :: real) powi (emax + 1)"
  shows "to_format p emax (of_int m * 2 powi e) = Fin (of_int m * 2 powi e)"
proof -
  have "round_to p (1 - emax) (of_int m * 2 powi e) = of_int m * 2 powi e"
    using assms(1,2) by (intro round_to_exact) simp_all
  then show ?thesis using assms(3) by (simp add: to_format_def)
qed

lemma to_format_bound:
  assumes "\<bar>x\<bar> \<le> of_int m * 2 powi e" "m < 2 ^ p" "2 - emax - int p \<le> e"
    "of_int m * 2 powi e < (2 :: real) powi (emax + 1)"
  shows "\<exists>r. to_format p emax x = Fin r \<and> \<bar>r\<bar> \<le> of_int m * 2 powi e"
proof -
  have "\<bar>round_to p (1 - emax) x\<bar> \<le> of_int m * 2 powi e"
    using assms(1,2,3) by (intro round_to_bound) simp_all
  then show ?thesis using assms(4) by (simp add: to_format_def)
qed

lemma round_to_ge_pow:
  assumes x: "0 < x" and p: "0 < p" and e: "emin \<le> ilog2 x"
  shows "2 powi ilog2 x \<le> round_to p emin x"
proof -
  define E where "E = ilog2 x"
  define q where "q = E - int p + 1"
  define n where "n = round_even (x / 2 powi q)"
  have q: "max (ilog2 \<bar>x\<bar>) emin - int p + 1 = q" using x e by (simp add: q_def E_def)
  have qE: "q \<le> E" using p by (simp add: q_def)
  have pq: "(0 :: real) < 2 powi q" by simp
  have s: "(2 :: real) powi E / 2 powi q = of_int (2 ^ nat (E - q))"
    using scaled_int [OF qE, of 1] by simp
  have "2 powi E \<le> x" using ilog2_bounds [OF x] by (simp add: E_def)
  then have "2 powi E / 2 powi q \<le> x / 2 powi q"
    using pq by (simp add: divide_right_mono)
  then have "of_int (2 ^ nat (E - q)) \<le> x / 2 powi q"
    unfolding s .
  then have "2 ^ nat (E - q) \<le> n" unfolding n_def by (rule round_even_ge)
  then have "real_of_int (2 ^ nat (E - q)) \<le> of_int n"
    by (simp only: of_int_le_iff)
  then have "2 powi E / 2 powi q \<le> real_of_int n" unfolding s .
  then have "2 powi E \<le> real_of_int n * 2 powi q"
    using pq by (simp add: field_simps)
  moreover have "round_to p emin x = real_of_int n * 2 powi q"
    using x unfolding round_to_def Let_def q n_def by simp
  ultimately show ?thesis by (simp add: E_def)
qed

lemma to_format_overflow:
  assumes "2 powi (emax + 1) \<le> x" "0 < p" "0 \<le> emax"
  shows "to_format p emax x = PInf"
proof -
  have x: "0 < x" using assms(1) zero_less_power_int [of "2 :: real" "emax + 1"] by linarith
  have "\<not> ilog2 x < emax + 1"
  proof
    assume "ilog2 x < emax + 1"
    then have "(2 :: real) powi (ilog2 x + 1) \<le> 2 powi (emax + 1)"
      by (intro power_int_increasing) simp_all
    then show False using ilog2_bounds [OF x] assms(1) by linarith
  qed
  then have e: "emax + 1 \<le> ilog2 x" by simp
  then have "(2 :: real) powi (emax + 1) \<le> 2 powi ilog2 x" by (intro power_int_increasing) simp_all
  also have "\<dots> \<le> round_to p (1 - emax) x"
    using x assms(2,3) e by (intro round_to_ge_pow) simp_all
  finally show ?thesis using x by (simp add: to_format_def Let_def)
qed

lemma to_format_eval:
  assumes "x \<noteq> 0" "2 powi k \<le> \<bar>x\<bar>" "\<bar>x\<bar> < 2 powi (k + 1)"
    "round_even (x / 2 powi (max k (1 - emax) - int p + 1)) = n"
    "\<bar>of_int n * 2 powi (max k (1 - emax) - int p + 1)\<bar> < (2 :: real) powi (emax + 1)"
  shows "to_format p emax x = Fin (of_int n * 2 powi (max k (1 - emax) - int p + 1))"
proof -
  have "ilog2 \<bar>x\<bar> = k" using assms(1,2,3) by (intro ilog2_unique) simp_all
  then have "round_to p (1 - emax) x = of_int n * 2 powi (max k (1 - emax) - int p + 1)"
    using assms(1,4) by (simp add: round_to_def Let_def)
  then show ?thesis using assms(5) by (simp add: to_format_def)
qed

lemma round_to_form:
  assumes x: "x \<noteq> 0" and q_def: "q = max (ilog2 \<bar>x\<bar>) emin - int p + 1"
  shows "round_to p emin x = of_int (round_even (x / 2 powi q)) * 2 powi q"
    and "\<bar>round_even (x / 2 powi q)\<bar> \<le> 2 ^ p"
proof -
  show "round_to p emin x = of_int (round_even (x / 2 powi q)) * 2 powi q"
    using x by (simp add: round_to_def Let_def q_def)
  define E where "E = ilog2 \<bar>x\<bar>"
  define t where "t = x / 2 powi q"
  have b: "\<bar>x\<bar> < 2 powi (E + 1)" using ilog2_bounds [of "\<bar>x\<bar>"] x by (simp add: E_def)
  have "E + 1 - q \<le> int p" by (simp add: q_def E_def)
  then have "(2 :: real) powi (E + 1 - q) \<le> 2 powi int p" by (intro power_int_increasing) simp_all
  moreover have "\<bar>x\<bar> / 2 powi q < 2 powi (E + 1) / 2 powi q"
    using b by (simp add: divide_strict_right_mono)
  moreover have "(2 :: real) powi (E + 1) / 2 powi q = 2 powi (E + 1 - q)"
    by (simp add: power_int_diff)
  moreover have "\<bar>t\<bar> = \<bar>x\<bar> / 2 powi q" by (simp add: t_def)
  ultimately have "\<bar>t\<bar> \<le> 2 ^ p" by simp
  then have "t \<le> of_int (2 ^ p)" "of_int (- (2 ^ p)) \<le> t" by (simp_all add: abs_le_iff)
  then have "round_even t \<le> 2 ^ p" "- (2 ^ p) \<le> round_even t"
    by (auto intro: round_even_le round_even_ge)
  then show "\<bar>round_even (x / 2 powi q)\<bar> \<le> 2 ^ p" unfolding t_def by linarith
qed

lemma round_to_exact_le:
  assumes m: "\<bar>m\<bar> \<le> 2 ^ p" and e: "emin - int p + 1 \<le> e" and p: "0 < p"
  shows "round_to p emin (of_int m * 2 powi e) = of_int m * 2 powi e"
proof (cases "\<bar>m\<bar> < 2 ^ p")
  case True
  then show ?thesis using e by (rule round_to_exact)
next
  case False
  then have a: "\<bar>m\<bar> = 2 ^ p" using m by simp
  have "\<exists>s :: int. \<bar>s\<bar> = 1 \<and> m = s * 2 ^ p"
  proof (cases "0 \<le> m")
    case True
    then show ?thesis using a by (intro exI [of _ 1]) simp
  next
    case False
    then show ?thesis using a by (intro exI [of _ "- 1"]) simp
  qed
  then obtain s :: int where s: "\<bar>s\<bar> = 1" "m = s * 2 ^ p" by blast
  obtain p' where p': "p = Suc p'" using p by (cases p) auto
  have "real_of_int m * 2 powi e = of_int (s * 2 ^ p') * 2 powi (e + 1)"
    by (simp add: s p' power_int_add)
  moreover have "round_to p emin (of_int (s * 2 ^ p') * 2 powi (e + 1))
      = of_int (s * 2 ^ p') * 2 powi (e + 1)"
    using e s(1) by (intro round_to_exact) (simp_all add: abs_mult p')
  ultimately show ?thesis by simp
qed

lemma round_to_idem:
  assumes "0 < p"
  shows "round_to p emin (round_to p emin x) = round_to p emin x"
proof (cases "x = 0")
  case True
  then show ?thesis by simp
next
  case False
  define q where "q = max (ilog2 \<bar>x\<bar>) emin - int p + 1"
  from round_to_form [OF False q_def]
  have f: "round_to p emin x = of_int (round_even (x / 2 powi q)) * 2 powi q"
    "\<bar>round_even (x / 2 powi q)\<bar> \<le> 2 ^ p"
    by simp_all
  have "emin - int p + 1 \<le> q" by (simp add: q_def)
  from round_to_exact_le [OF f(2) this assms] show ?thesis by (simp add: f(1))
qed

lemma to_format_idem:
  assumes "to_format p emax x = Fin r" "0 < p"
  shows "to_format p emax r = Fin r"
proof -
  from assms(1) have r: "r = round_to p (1 - emax) x" "\<not> 2 powi (emax + 1) \<le> \<bar>r\<bar>"
    by (auto simp: to_format_def Let_def split: if_splits)
  have "round_to p (1 - emax) r = r" unfolding r(1) using assms(2) by (rule round_to_idem)
  then show ?thesis using r(2) by (simp add: to_format_def)
qed

lemma to_format_form:
  assumes "to_format p emax x = Fin r"
  shows "\<exists>n q. r = of_int n * 2 powi q \<and> \<bar>n\<bar> \<le> 2 ^ p \<and> 2 - emax - int p \<le> q"
proof (cases "x = 0")
  case True
  then have "r = of_int 0 * 2 powi (2 - emax - int p)" using assms by simp
  then show ?thesis by (intro exI [of _ 0] exI [of _ "2 - emax - int p"]) simp
next
  case False
  define q where "q = max (ilog2 \<bar>x\<bar>) (1 - emax) - int p + 1"
  from assms have r: "r = round_to p (1 - emax) x"
    by (auto simp: to_format_def Let_def split: if_splits)
  from round_to_form [OF False q_def]
  have f: "r = of_int (round_even (x / 2 powi q)) * 2 powi q"
    "\<bar>round_even (x / 2 powi q)\<bar> \<le> 2 ^ p"
    by (simp_all add: r)
  have "2 - emax - int p \<le> q" by (simp add: q_def)
  then show ?thesis using f by blast
qed

section \<open>binary32\<close>

lemma flt_0 [simp]: "flt 0 = Fin 0"
  by (simp add: flt_def)

lemma flt_uminus: "flt (- x) = - flt x"
  by (simp add: flt_def to_format_uminus)

lemma flt_exact:
  assumes "\<bar>m\<bar> < 2 ^ 24" "- 149 \<le> e" "\<bar>of_int m * 2 powi e\<bar> < (2 :: real) ^ 128"
  shows "flt (of_int m * 2 powi e) = Fin (of_int m * 2 powi e)"
  unfolding flt_def using assms by (intro to_format_exact) simp_all

lemma flt_of_int: "\<bar>n\<bar> < 2 ^ 24 \<Longrightarrow> flt (of_int n) = Fin (of_int n)"
proof -
  assume n: "\<bar>n\<bar> < 2 ^ 24"
  then have "\<bar>real_of_int n\<bar> < 2 ^ 24"
    by (metis of_int_abs of_int_less_iff of_int_numeral of_int_power)
  moreover have "(2 :: real) ^ 24 < 2 ^ 128" by simp
  ultimately have "\<bar>real_of_int n\<bar> < 2 ^ 128" by (rule less_trans)
  then show ?thesis using flt_exact [of n 0] n by simp
qed

lemma flt_numeral [simp]:
  "(numeral k :: int) < 2 ^ 24 \<Longrightarrow> flt (numeral k) = Fin (numeral k)"
  "(numeral k :: int) < 2 ^ 24 \<Longrightarrow> flt (- numeral k) = Fin (- numeral k)"
  using flt_of_int [of "numeral k"] flt_of_int [of "- numeral k"] by simp_all

lemma flt_1 [simp]: "flt 1 = Fin 1" "flt (- 1) = Fin (- 1)"
  using flt_of_int [of 1] flt_of_int [of "- 1"] by simp_all

lemma flt_overflow: "2 ^ 128 \<le> x \<Longrightarrow> flt x = PInf"
  unfolding flt_def by (intro to_format_overflow) simp_all

lemma flt_eval:
  assumes "x \<noteq> 0" "2 powi k \<le> \<bar>x\<bar>" "\<bar>x\<bar> < 2 powi (k + 1)"
    "round_even (x / 2 powi (max k (- 126) - 23)) = n"
    "\<bar>of_int n * 2 powi (max k (- 126) - 23)\<bar> < (2 :: real) ^ 128"
  shows "flt x = Fin (of_int n * 2 powi (max k (- 126) - 23))"
  unfolding flt_def using to_format_eval [of x k 127 24 n] assms by simp

section \<open>binary64\<close>

lemma dbl_0 [simp]: "dbl 0 = Fin 0"
  by (simp add: dbl_def)

lemma dbl_uminus: "dbl (- x) = - dbl x"
  by (simp add: dbl_def to_format_uminus)

lemma dbl_exact:
  assumes "\<bar>m\<bar> < 2 ^ 53" "- 1074 \<le> e" "\<bar>of_int m * 2 powi e\<bar> < (2 :: real) ^ 1024"
  shows "dbl (of_int m * 2 powi e) = Fin (of_int m * 2 powi e)"
  unfolding dbl_def using assms by (intro to_format_exact) simp_all

lemma dbl_of_int: "\<bar>n\<bar> < 2 ^ 53 \<Longrightarrow> dbl (of_int n) = Fin (of_int n)"
proof -
  assume n: "\<bar>n\<bar> < 2 ^ 53"
  then have "\<bar>real_of_int n\<bar> < 2 ^ 53"
    by (metis of_int_abs of_int_less_iff of_int_numeral of_int_power)
  moreover have "(2 :: real) ^ 53 < 2 ^ 1024" by simp
  ultimately have "\<bar>real_of_int n\<bar> < 2 ^ 1024" by (rule less_trans)
  then show ?thesis using dbl_exact [of n 0] n by simp
qed

lemma dbl_numeral [simp]:
  "(numeral k :: int) < 2 ^ 53 \<Longrightarrow> dbl (numeral k) = Fin (numeral k)"
  "(numeral k :: int) < 2 ^ 53 \<Longrightarrow> dbl (- numeral k) = Fin (- numeral k)"
  using dbl_of_int [of "numeral k"] dbl_of_int [of "- numeral k"] by simp_all

lemma dbl_1 [simp]: "dbl 1 = Fin 1" "dbl (- 1) = Fin (- 1)"
  using dbl_of_int [of 1] dbl_of_int [of "- 1"] by simp_all

lemma dbl_overflow: "2 ^ 1024 \<le> x \<Longrightarrow> dbl x = PInf"
  unfolding dbl_def by (intro to_format_overflow) simp_all

lemma dbl_eval:
  assumes "x \<noteq> 0" "2 powi k \<le> \<bar>x\<bar>" "\<bar>x\<bar> < 2 powi (k + 1)"
    "round_even (x / 2 powi (max k (- 1022) - 52)) = n"
    "\<bar>of_int n * 2 powi (max k (- 1022) - 52)\<bar> < (2 :: real) ^ 1024"
  shows "dbl x = Fin (of_int n * 2 powi (max k (- 1022) - 52))"
  unfolding dbl_def using to_format_eval [of x k 1023 53 n] assms by simp

text \<open>A result between 0 and 255, or between 0 and 1, stays there when it is rounded.\<close>

lemma to_format_unit_range:
  assumes "0 \<le> x" "x \<le> of_int m" "0 \<le> m" "m < 256" "8 \<le> p" "8 \<le> emax"
  shows "\<exists>r. to_format p emax x = Fin r \<and> 0 \<le> r \<and> r \<le> of_int m"
proof -
  have "(2 :: int) ^ 8 \<le> 2 ^ p" using assms(5) by (intro power_increasing) simp_all
  then have m: "m < 2 ^ p" using assms(4) by simp
  have "real_of_int m < 2 ^ 8" using assms(4) by simp
  also have "(2 :: real) ^ 8 = 2 powi 8" by simp
  also have "\<dots> \<le> 2 powi (emax + 1)" using assms(6) by (intro power_int_increasing) simp_all
  finally have b: "real_of_int m * 2 powi 0 < 2 powi (emax + 1)" by simp
  have "\<bar>x\<bar> \<le> of_int m * 2 powi 0" using assms(1,2) by simp
  from to_format_bound [OF this m _ b] assms(5,6)
  obtain r where r: "to_format p emax x = Fin r" "\<bar>r\<bar> \<le> of_int m" by auto
  have "0 \<le> round_to p (1 - emax) x" using assms(1) by (rule round_to_nonneg)
  then have "0 \<le> r" using r(1) by (auto simp: to_format_def Let_def split: if_splits)
  then show ?thesis using r by auto
qed

lemma flt_unit_range:
  "0 \<le> x \<Longrightarrow> x \<le> of_int m \<Longrightarrow> 0 \<le> m \<Longrightarrow> m < 256
     \<Longrightarrow> \<exists>r. flt x = Fin r \<and> 0 \<le> r \<and> r \<le> of_int m"
  unfolding flt_def by (rule to_format_unit_range) simp_all

lemma dbl_unit_range:
  "0 \<le> x \<Longrightarrow> x \<le> of_int m \<Longrightarrow> 0 \<le> m \<Longrightarrow> m < 256
     \<Longrightarrow> \<exists>r. dbl x = Fin r \<and> 0 \<le> r \<and> r \<le> of_int m"
  unfolding dbl_def by (rule to_format_unit_range) simp_all

text \<open>Results are values of the format.\<close>

lemma flt_idem: "flt x = Fin r \<Longrightarrow> flt r = Fin r"
  unfolding flt_def by (rule to_format_idem) simp_all

lemma finite32_plus: "a + b = Fin r \<Longrightarrow> flt r = Fin r"
  by (cases a; cases b) (auto dest: flt_idem split: if_splits)

lemma finite32_half:
  assumes "flt x = Fin x" "\<bar>x\<bar> < 2 ^ 1024"
  shows "dbl (x / 2) = Fin (x / 2)"
proof -
  from to_format_form [OF assms(1) [unfolded flt_def]]
  obtain n q where n: "x = of_int n * 2 powi q" "\<bar>n\<bar> \<le> 2 ^ 24" "- 149 \<le> q" by auto
  have "(2 :: int) ^ 24 < 2 ^ 53" by simp
  then have n53: "\<bar>n\<bar> < 2 ^ 53" using n(2) by linarith
  have h: "x / 2 = of_int n * 2 powi (q - 1)" by (simp add: n(1) power_int_diff)
  have "\<bar>x / 2\<bar> < 2 ^ 1024" using assms(2) by simp
  then show ?thesis unfolding h using n53 n(3) by (intro dbl_exact) simp_all
qed

section \<open>Arithmetic of the floating-point values\<close>

lemma Fin_minus [simp]: "Fin a - Fin b = flt (a - b)"
  by (simp add: minus_float_def)

lemma float_minus_NaN [simp]: "NaN - a = NaN" "a - NaN = NaN"
  by (cases a; simp add: minus_float_def)+

lemma float_uminus_uminus [simp]: "- (- a) = (a :: float)"
  by (cases a) simp_all

lemma float_uminus_eq_NaN [simp]: "- a = NaN \<longleftrightarrow> a = NaN"
  by (cases a) simp_all

lemma float_mult_uminus_right: "a * (- b) = - (a * b :: float)"
  by (cases a; cases b) (auto simp: flt_uminus)

lemma float_add_uminus: "(- a) + (- b) = - (a + b :: float)"
proof (cases a; cases b)
  fix x y assume "a = Fin x" "b = Fin y"
  then show ?thesis using flt_uminus [of "x + y"] by simp
qed auto

lemma float_less_irrefl [simp]: "\<not> (a :: float) < a"
  by (cases a) simp_all

lemma float_less_trans: "(a :: float) < b \<Longrightarrow> b < c \<Longrightarrow> a < c"
  by (cases a; cases b; cases c) auto

lemma float_less_asym: "(a :: float) < b \<Longrightarrow> \<not> b < a"
  by (cases a; cases b) auto

lemma float_mult_commute: "a * b = (b * a :: float)"
  by (cases a; cases b) (auto simp: mult.commute)

lemma float_NaN_absorb [simp]:
  "a * NaN = NaN" "NaN * a = NaN" "a + NaN = NaN" "NaN + a = NaN"
  by (cases a; simp)+

lemma sqrtf_0_1 [simp]: "sqrtf (Fin 0) = Fin 0" "sqrtf (Fin 1) = Fin 1"
  by simp_all

lemma is_fin_iff: "is_fin a \<longleftrightarrow> (\<exists>r. a = Fin r)"
  by (cases a) simp_all

lemma finite32_iff: "finite32 a \<longleftrightarrow> (\<exists>r. a = Fin r \<and> flt r = Fin r)"
  by (cases a) simp_all

lemma fin3_iff: "fin3 v \<longleftrightarrow> (\<exists>a b c. v = fvec a b c)"
  by (cases v) (auto simp: fin3_def is_fin_iff)

section \<open>The depth limit\<close>

text \<open>
  Claim C1. For every scene, ray origin, direction and every depth above 10,
  \<^verbatim>\<open>rayCaster\<close> returns the background colour (0.3, 0.2, 0.3), whatever the scene holds.
\<close>

theorem rayCaster_beyond_MAXDEPTH:
  "10 < depth \<Longrightarrow>
     rayCaster orig dir spheres lights depth
       = Some (Vec3f (Fin (3 / 10)) (Fin (2 / 10)) (Fin (3 / 10)))"
  by (subst rayCaster.simps) (simp add: MAXDEPTH_def BACKGROUNDCOLOR_def)

theorem rayCaster_beyond_MAXDEPTH_witness:
  "(10 :: nat) < 11 \<and>
   rayCaster (Vec3f (Fin 0) (Fin 0) (Fin 0)) (Vec3f (Fin 0) (Fin 0) (Fin (- 1)))
     [\<lparr>center = Vec3f (Fin 0) (Fin 0) (Fin (- 5)), radius = Fin 1, material = Material_default\<rparr>]
     [\<lparr>position = Vec3f (Fin 0) (Fin 10) (Fin 0), intensity = Fin 1\<rparr>] 11
     = Some (Vec3f (Fin (3 / 10)) (Fin (2 / 10)) (Fin (3 / 10)))"
  using rayCaster_beyond_MAXDEPTH [of 11] by simp

section \<open>Sphere intersection\<close>

text \<open>Sums, differences and products of small integers are exact in binary32.\<close>

lemma Fin_int_add: "\<bar>a + b\<bar> < 2 ^ 24 \<Longrightarrow> Fin (of_int a) + Fin (of_int b) = Fin (of_int (a + b))"
  using flt_of_int [of "a + b"] by simp

lemma Fin_int_diff: "\<bar>a - b\<bar> < 2 ^ 24 \<Longrightarrow> Fin (of_int a) - Fin (of_int b) = Fin (of_int (a - b))"
  using flt_of_int [of "a - b"] by simp

lemma Fin_int_mult: "\<bar>a * b\<bar> < 2 ^ 24 \<Longrightarrow> Fin (of_int a) * Fin (of_int b) = Fin (of_int (a * b))"
  using flt_of_int [of "a * b"] by simp

lemma int_product_bound:
  fixes a b :: int
  assumes "\<bar>a\<bar> < 4096" "\<bar>b\<bar> < 4096"
  shows "\<bar>a * b\<bar> < 2 ^ 24"
proof -
  have "\<bar>a\<bar> * \<bar>b\<bar> \<le> 4095 * 4095"
    using assms by (intro mult_mono) simp_all
  then show ?thesis by (simp add: abs_mult)
qed

lemma sqrtf_int_square: "0 \<le> R \<Longrightarrow> R < 4096 \<Longrightarrow> sqrtf (Fin (of_int (R * R))) = Fin (of_int R)"
proof -
  assume R: "0 \<le> R" "R < 4096"
  have "sqrt (of_int (R * R)) = of_int R"
    using R by (intro real_sqrt_unique) (simp_all add: power2_eq_square)
  moreover have "\<not> real_of_int (R * R) < 0" by simp
  moreover have "flt (of_int R) = Fin (of_int R)" using R by (intro flt_of_int) simp
  ultimately show ?thesis by (simp del: of_int_mult)
qed




section \<open>Nearest hit in the scene\<close>

text \<open>The loop over the spheres never raises \<^verbatim>\<open>spheres_dist\<close>.\<close>

lemma spheres_loop_dist:
  "fst (spheres_loop orig dir ss (sd, h, n, m)) = sd
     \<or> fst (spheres_loop orig dir ss (sd, h, n, m)) < sd"
proof (induction ss arbitrary: sd h n m)
  case Nil
  then show ?case by simp
next
  case (Cons s ss)
  show ?case
  proof (cases "rayIntersect s orig dir")
    case None
    then show ?thesis using Cons.IH [of sd h n m] by simp
  next
    case (Some dist_i)
    show ?thesis
    proof (cases "dist_i < sd")
      case True
      let ?h = "orig + vscale dir dist_i"
      from Cons.IH [of dist_i ?h "normalize (?h - center s)" "material s"]
      have "fst (spheres_loop orig dir (s # ss) (sd, h, n, m)) = dist_i
          \<or> fst (spheres_loop orig dir (s # ss) (sd, h, n, m)) < dist_i"
        using Some True by (simp add: Let_def)
      then show ?thesis using True float_less_trans by blast
    next
      case False
      then show ?thesis using Some Cons.IH [of sd h n m] by simp
    qed
  qed
qed

lemma std_min_FLT_MAX: "sd = FLT_MAX \<or> sd < FLT_MAX \<Longrightarrow> std_min sd FLT_MAX = sd"
  by (auto simp: std_min_def dest: float_less_asym)

lemma checkerboard_cases:
  "checkerboard orig dir (sd, h, n, m) =
     (let distance = - (vy orig + Fin 5) / vy dir; pt = orig + vscale dir distance in
      if \<bar>vy dir\<bar> > Fin (1 / 1000) \<and> distance > Fin 0 \<and> \<bar>vx pt\<bar> < Fin 10
           \<and> vz pt < Fin (- 10) \<and> vz pt > Fin (- 30) \<and> distance < sd
      then (distance, pt, Vec3f (Fin 0) (Fin 1) (Fin 0), m\<lparr>diffuse_color := checker_color pt\<rparr>)
      else (FLT_MAX, h, n, m))"
  by (simp add: checkerboard_def Let_def)

text \<open>
  Claim C4. With \<open>st\<close> the state after the loop over the spheres, \<open>cb\<close> the result of the
  checkerboard block and \<open>pt\<close> the point of the plane \<open>y = -5\<close> on the ray:
  the outputs of \<^verbatim>\<open>sceneIntersect\<close> are those of the checkerboard block; unless
  \<open>|dir.y| > 1e-3\<close> the block leaves \<^verbatim>\<open>checkerboard_dist\<close> at its initial value and the
  outputs as the spheres left them; the plane wins (\<^verbatim>\<open>checkerboard_dist\<close> is assigned)
  only if \<open>|dir.y| > 1e-3\<close>, \<open>|pt.x| < 10\<close>, \<open>-30 < pt.z < -10\<close> and its distance is
  positive and strictly below the best sphere distance, and the hit point is then \<open>pt\<close>;
  the flag returned is true exactly when the winning distance, of the plane if it won
  and of the spheres otherwise, is strictly below 1000.
\<close>

theorem sceneIntersect_plane_and_cutoff:
  "(let st = spheres_loop orig dir spheres (FLT_MAX, hit, N, mat);
        spheres_dist = fst st;
        cb = checkerboard orig dir st;
        checkerboard_dist = fst cb;
        distance = - (vy orig + Fin 5) / vy dir;
        pt = orig + vscale dir distance;
        res = sceneIntersect orig dir spheres hit N mat
    in snd res = snd cb
       \<and> (\<not> \<bar>vy dir\<bar> > Fin (1 / 1000) \<longrightarrow> checkerboard_dist = FLT_MAX \<and> snd cb = snd st)
       \<and> (checkerboard_dist \<noteq> FLT_MAX \<longrightarrow>
             \<bar>vy dir\<bar> > Fin (1 / 1000) \<and> \<bar>vx pt\<bar> < Fin 10
             \<and> Fin (- 30) < vz pt \<and> vz pt < Fin (- 10)
             \<and> Fin 0 < distance \<and> distance < spheres_dist
             \<and> checkerboard_dist = distance \<and> fst (snd cb) = pt)
       \<and> (checkerboard_dist = FLT_MAX \<longrightarrow> snd cb = snd st)
       \<and> (fst res \<longleftrightarrow>
             (if checkerboard_dist \<noteq> FLT_MAX then checkerboard_dist else spheres_dist)
               < Fin 1000))"
proof -
  obtain sd h n m where st: "spheres_loop orig dir spheres (FLT_MAX, hit, N, mat) = (sd, h, n, m)"
    by (cases "spheres_loop orig dir spheres (FLT_MAX, hit, N, mat)") auto
  have inv: "sd = FLT_MAX \<or> sd < FLT_MAX"
    using spheres_loop_dist [of orig dir spheres FLT_MAX hit N mat] by (simp add: st)
  show ?thesis
    using inv
    by (auto simp: Let_def st sceneIntersect_def checkerboard_cases std_min_FLT_MAX
        std_min_def split: prod.splits if_splits dest: float_less_asym)
qed

theorem sceneIntersect_plane_and_cutoff_witness:
  "\<bar>vy (fvec 0 (- 1) 0)\<bar> > Fin (1 / 1000)
   \<and> fst (checkerboard (fvec 0 0 (- 15)) (fvec 0 (- 1) 0)
            (spheres_loop (fvec 0 0 (- 15)) (fvec 0 (- 1) 0) []
               (FLT_MAX, Vec3f_default, Vec3f_default, Material_default))) = Fin 5
   \<and> Fin 5 \<noteq> FLT_MAX
   \<and> fst (sceneIntersect (fvec 0 0 (- 15)) (fvec 0 (- 1) 0) [] Vec3f_default Vec3f_default
            Material_default)
   \<and> fst (snd (sceneIntersect (fvec 0 0 (- 15)) (fvec 0 (- 1) 0) [] Vec3f_default Vec3f_default
            Material_default)) = fvec 0 (- 5) (- 15)"
  using sceneIntersect_plane_and_cutoff
    [where orig = "fvec 0 0 (- 15)" and dir = "fvec 0 (- 1) 0" and spheres = "[]"
       and hit = Vec3f_default and N = Vec3f_default and mat = Material_default]
  by (simp add: Let_def checkerboard_def FLT_MAX_def plus_Vec3f_def vscale_def)

section \<open>The checkerboard pattern\<close>

text \<open>
  Dividing a rounded integer by an even number: a tie that goes down to the even
  neighbour stays in the same class.
\<close>

lemma round_even_div:
  assumes "even K" "0 < K"
  shows "round_even t div K = \<lfloor>t + 1 / 2\<rfloor> div K"
proof -
  define m where "m = \<lfloor>t\<rfloor>"
  define d where "d = t - of_int m"
  have d: "0 \<le> d" "d < 1" by (simp_all add: d_def m_def) linarith
  have t: "t = of_int m + d" by (simp add: d_def)
  consider "d < 1 / 2" | "1 / 2 < d" | "d = 1 / 2" "odd m" | "d = 1 / 2" "even m" by fastforce
  then show ?thesis
  proof cases
    case 1
    have "\<lfloor>t + 1 / 2\<rfloor> = m" unfolding t using 1 d by (intro floor_unique) simp_all
    moreover have "round_even t = m" using 1 by (simp add: round_even_def Let_def m_def d_def)
    ultimately show ?thesis by simp
  next
    case 2
    have "\<lfloor>t + 1 / 2\<rfloor> = m + 1" unfolding t using 2 d by (intro floor_unique) simp_all
    moreover have "round_even t = m + 1"
      using 2 by (simp add: round_even_def Let_def m_def d_def)
    ultimately show ?thesis by simp
  next
    case 3
    have "\<lfloor>t + 1 / 2\<rfloor> = m + 1" unfolding t using 3 by (intro floor_unique) simp_all
    moreover have "t - of_int \<lfloor>t\<rfloor> = 1 / 2" "odd \<lfloor>t\<rfloor>"
      using 3 by (simp_all add: d_def m_def)
    then have "round_even t = m + 1"
      by (simp add: round_even_def Let_def m_def)
    ultimately show ?thesis by simp
  next
    case 4
    have f: "\<lfloor>t + 1 / 2\<rfloor> = m + 1" unfolding t using 4 by (intro floor_unique) simp_all
    have "t - of_int \<lfloor>t\<rfloor> = 1 / 2" "even \<lfloor>t\<rfloor>"
      using 4 by (simp_all add: d_def m_def)
    then have r: "round_even t = m"
      by (simp add: round_even_def Let_def m_def)
    obtain a where a: "m = 2 * a" using 4(2) by (elim evenE)
    obtain b where b: "K = 2 * b" using assms(1) by (elim evenE)
    have "0 \<le> b" using assms(2) b by simp
    then have "(1 + 2 * a) div (2 * b) = a div b" by (rule pos_zdiv_mult_2)
    moreover have "(2 * a) div (2 * b) = a div b" by simp
    ultimately have "(m + 1) div K = m div K" by (simp add: a b add.commute)
    then show ?thesis by (simp add: f r)
  qed
qed

text \<open>
  The sum \<^verbatim>\<open>.5 * hit.x + 1000\<close> lies between 512 and 1024, where the quantum of
  \<^verbatim>\<open>double\<close> is \<open>2\<^sup>-\<^sup>4\<^sup>3\<close>: its integer part after rounding is the floor of the
  exact sum moved up by half a quantum.
\<close>

lemma dbl_floor_near_1000:
  assumes "512 \<le> y" "y < 1024"
  shows "\<exists>r. dbl y = Fin r \<and> 0 \<le> r \<and> r \<le> 1024 \<and> \<lfloor>r\<rfloor> = \<lfloor>y + 1 / 2 ^ 44\<rfloor>"
proof -
  define n where "n = round_even (y * 2 ^ 43)"
  have y0: "y \<noteq> 0" "0 < \<bar>y\<bar>" "\<bar>y\<bar> = y" using assms by simp_all
  have i: "ilog2 \<bar>y\<bar> = 9" using assms by (intro ilog2_unique) (simp_all add: y0(3))
  have s: "y / 2 powi (- 43) = y * 2 ^ 43" by (simp add: power_int_minus field_simps)
  from round_to_form(2) [OF y0(1), of "- 43" "- 1022" 53]
  have nb: "\<bar>n\<bar> \<le> 2 ^ 53" by (simp add: i s n_def)
  have n0: "0 \<le> n" unfolding n_def using assms by (intro round_even_ge) simp
  have "real_of_int n \<le> 2 ^ 53" using nb n0
    by (metis abs_of_nonneg of_int_le_iff of_int_numeral of_int_power)
  then have rb: "real_of_int n / 2 ^ 43 \<le> 1024" by (simp add: field_simps)
  have p: "(2 :: real) powi (- 43) = 1 / 2 ^ 43" by (simp add: power_int_minus field_simps)
  have "dbl y = Fin (of_int n * 2 powi (max 9 (- 1022) - 52))"
    using assms s rb n0 by (intro dbl_eval) (simp_all add: y0 n_def p)
  then have d: "dbl y = Fin (of_int n / 2 ^ 43)" by (simp add: p)
  have "\<lfloor>real_of_int n / 2 ^ 43\<rfloor> = \<lfloor>real_of_int n / real_of_int (2 ^ 43)\<rfloor>" by simp
  also have "\<dots> = n div 2 ^ 43" by (rule floor_divide_of_int_eq)
  also have "\<dots> = \<lfloor>y * 2 ^ 43 + 1 / 2\<rfloor> div 2 ^ 43"
    unfolding n_def by (rule round_even_div) simp_all
  also have "\<dots> = \<lfloor>(y * 2 ^ 43 + 1 / 2) / real_of_int (2 ^ 43)\<rfloor>"
    by (rule floor_divide_real_eq_div [symmetric]) simp
  also have "(y * 2 ^ 43 + 1 / 2) / real_of_int (2 ^ 43) = y + 1 / 2 ^ 44"
    by (simp add: field_simps)
  finally have fl: "\<lfloor>real_of_int n / 2 ^ 43\<rfloor> = \<lfloor>y + 1 / 2 ^ 44\<rfloor>" .
  show ?thesis
  proof (intro exI conjI)
    show "dbl y = Fin (of_int n / 2 ^ 43)" by (rule d)
    show "0 \<le> real_of_int n / 2 ^ 43" using n0 by simp
    show "real_of_int n / 2 ^ 43 \<le> 1024" by (rule rb)
    show "\<lfloor>real_of_int n / 2 ^ 43\<rfloor> = \<lfloor>y + 1 / 2 ^ 44\<rfloor>" by (rule fl)
  qed
qed

text \<open>
  On the region the checkerboard block accepts, at binary32 coordinates: the products
  with \<^verbatim>\<open>.5\<close> are exact, the first conversion to \<^verbatim>\<open>int\<close> is a floor (its argument is
  positive) of the rounded sum, and the second a ceiling (its argument is negative).
\<close>

lemma checker_color_region:
  assumes "flt x = Fin x" "flt z = Fin z" "\<bar>x\<bar> < 10" "- 30 < z" "z < - 10"
  shows "checker_color (Vec3f (Fin x) y (Fin z))
     = (if odd (\<lfloor>x / 2 + 1000 + 1 / 2 ^ 44\<rfloor> + \<lceil>z / 2\<rceil>) then fvec (3 / 10) (3 / 10) (3 / 10)
        else fvec (1 / 10) (1 / 10) (1 / 10))"
proof -
  have big: "(10 :: real) < 2 ^ 1024" "(30 :: real) < 2 ^ 1024" by simp_all
  have "\<bar>x\<bar> < 2 ^ 1024" "\<bar>z\<bar> < 2 ^ 1024" using assms big by linarith+
  then have h: "dbl (x / 2) = Fin (x / 2)" "dbl (z / 2) = Fin (z / 2)"
    using assms(1,2) by (auto intro: finite32_half)
  have "512 \<le> x / 2 + 1000" "x / 2 + 1000 < 1024" using assms by auto
  from dbl_floor_near_1000 [OF this]
  obtain r where r: "dbl (x / 2 + 1000) = Fin r" "0 \<le> r" "r \<le> 1024"
    "\<lfloor>r\<rfloor> = \<lfloor>x / 2 + 1000 + 1 / 2 ^ 44\<rfloor>" by auto
  have "r < 2 ^ 31" "- (2 ^ 31) - 1 < r" using r by auto
  then have cx: "c_int (double_add (double_mult (Fin (1 / 2)) (Fin x)) (Fin 1000))
      = \<lfloor>x / 2 + 1000 + 1 / 2 ^ 44\<rfloor>"
    using r by (simp add: h c_int_def)
  have "\<not> 0 \<le> z / 2" "z / 2 < 2 ^ 31" "- (2 ^ 31) - 1 < z / 2"
    using assms by auto
  then have cz: "c_int (double_mult (Fin (1 / 2)) (Fin z)) = \<lceil>z / 2\<rceil>"
    by (simp add: h c_int_def)
  have p: "(a AND 1 \<noteq> 0) = odd a" for a :: int
    by (simp add: and_one_eq odd_iff_mod_2_eq_one)
  show ?thesis
    by (simp only: checker_color_def Vec3f.sel cx cz p)
qed

text \<open>The parity expression at \<open>x = 0, z = 0\<close> and at \<open>x = 1, z = 0\<close>: the same shade.\<close>

lemma checker_color_literal_coordinates:
  "checker_color (fvec 0 y 0) = fvec (1 / 10) (1 / 10) (1 / 10)
   \<and> checker_color (fvec 1 y 0) = fvec (1 / 10) (1 / 10) (1 / 10)"
proof -
  have f: "dbl (1 / 2) = Fin (1 / 2)" "dbl (2001 / 2) = Fin (2001 / 2)"
    using dbl_eval [of "1 / 2" "- 1" 4503599627370496]
      dbl_eval [of "2001 / 2" 9 8800491068719104]
    by (simp_all add: round_even_def)
  show ?thesis by (simp add: checker_color_def c_int_def f)
qed

text \<open>
  Claim C3, as stated, fails: the rays straight down from \<open>(0, 0, -12)\<close> and from
  \<open>(0, 0, -15)\<close> hit the plane at accepted points whose sums
  \<open>floor (0.5 x + 1000) + floor (0.5 z)\<close> are both even, and get different shades.
\<close>

theorem checkerboard_floor_parity_counterexample:
  "even (\<lfloor>(1 / 2) * 0 + 1000 :: real\<rfloor> + \<lfloor>(1 / 2) * (- 12) :: real\<rfloor>)
   \<and> even (\<lfloor>(1 / 2) * 0 + 1000 :: real\<rfloor> + \<lfloor>(1 / 2) * (- 15) :: real\<rfloor>)
   \<and> sceneIntersect (fvec 0 0 (- 12)) (fvec 0 (- 1) 0) [] Vec3f_default Vec3f_default
         Material_default
       = (True, fvec 0 (- 5) (- 12), fvec 0 1 0,
          Material_default\<lparr>diffuse_color := fvec (1 / 10) (1 / 10) (1 / 10)\<rparr>)
   \<and> sceneIntersect (fvec 0 0 (- 15)) (fvec 0 (- 1) 0) [] Vec3f_default Vec3f_default
         Material_default
       = (True, fvec 0 (- 5) (- 15), fvec 0 1 0,
          Material_default\<lparr>diffuse_color := fvec (3 / 10) (3 / 10) (3 / 10)\<rparr>)
   \<and> fvec (1 / 10) (1 / 10) (1 / 10) \<noteq> fvec (3 / 10) (3 / 10) (3 / 10)"
proof -
  have f: "dbl (15 / 2) = Fin (15 / 2)"
    using dbl_eval [of "15 / 2" 2 8444249301319680] by (simp add: round_even_def)
  show ?thesis
    by (simp add: sceneIntersect_def checkerboard_def Let_def FLT_MAX_def plus_Vec3f_def
        vscale_def std_min_def checker_color_def c_int_def f dbl_uminus flt_uminus)
qed

text \<open>
  Claim C3, as amended. Whenever the checkerboard plane wins in \<^verbatim>\<open>sceneIntersect\<close>, the
  hit point has finite \<open>x\<close> and \<open>z\<close> with \<open>|x| < 10\<close> and \<open>-30 < z < -10\<close>, and the diffuse
  colour is chosen by the parity of \<open>trunc (fl (0.5 x + 1000)) + trunc (0.5 z)\<close>, where
  \<open>fl\<close> rounds the sum to \<^verbatim>\<open>double\<close> and the conversion to \<^verbatim>\<open>int\<close> rounds toward zero;
  on this region that sum is \<open>floor (0.5 x + 1000 + 2\<^sup>-\<^sup>4\<^sup>4) + ceiling (0.5 z)\<close>. The
  colour is (0.3, 0.3, 0.3) when the sum is odd and (0.1, 0.1, 0.1) when it is even.
\<close>

theorem checkerboard_color_rounded:
  "(let st = spheres_loop orig dir spheres (FLT_MAX, hit, N, mat);
        cb = checkerboard orig dir st;
        res = sceneIntersect orig dir spheres hit N mat
    in fst cb \<noteq> FLT_MAX \<longrightarrow>
         (\<exists>x z. vx (fst (snd res)) = Fin x \<and> vz (fst (snd res)) = Fin z
            \<and> \<bar>x\<bar> < 10 \<and> - 30 < z \<and> z < - 10
            \<and> diffuse_color (snd (snd (snd res)))
                = (if odd (\<lfloor>x / 2 + 1000 + 1 / 2 ^ 44\<rfloor> + \<lceil>z / 2\<rceil>)
                   then fvec (3 / 10) (3 / 10) (3 / 10)
                   else fvec (1 / 10) (1 / 10) (1 / 10))))"
proof -
  obtain sd h n m where st: "spheres_loop orig dir spheres (FLT_MAX, hit, N, mat) = (sd, h, n, m)"
    by (cases "spheres_loop orig dir spheres (FLT_MAX, hit, N, mat)") auto
  define pt where "pt = orig + vscale dir (- (vy orig + Fin 5) / vy dir)"
  have "\<exists>x z. vx (fst (snd res)) = Fin x \<and> vz (fst (snd res)) = Fin z
            \<and> \<bar>x\<bar> < 10 \<and> - 30 < z \<and> z < - 10
            \<and> diffuse_color (snd (snd (snd res)))
                = (if odd (\<lfloor>x / 2 + 1000 + 1 / 2 ^ 44\<rfloor> + \<lceil>z / 2\<rceil>)
                   then fvec (3 / 10) (3 / 10) (3 / 10)
                   else fvec (1 / 10) (1 / 10) (1 / 10))"
    if win: "fst (checkerboard orig dir (sd, h, n, m)) \<noteq> FLT_MAX"
      and res: "res = sceneIntersect orig dir spheres hit N mat" for res
  proof -
    from win have c: "\<bar>vx pt\<bar> < Fin 10" "vz pt < Fin (- 10)" "vz pt > Fin (- 30)"
      and cb: "checkerboard orig dir (sd, h, n, m)
        = (- (vy orig + Fin 5) / vy dir, pt, Vec3f (Fin 0) (Fin 1) (Fin 0),
           m\<lparr>diffuse_color := checker_color pt\<rparr>)"
      by (auto simp: checkerboard_cases Let_def pt_def split: if_splits)
    obtain px py pz where pt: "pt = Vec3f px py pz" by (cases pt)
    from c obtain x where x: "px = Fin x" "\<bar>x\<bar> < 10"
      by (cases px) (auto simp: pt)
    from c obtain z where z: "pz = Fin z" "- 30 < z" "z < - 10"
      by (cases pz) (auto simp: pt)
    have "vx orig + vx (vscale dir (- (vy orig + Fin 5) / vy dir)) = Fin x"
      "vz orig + vz (vscale dir (- (vy orig + Fin 5) / vy dir)) = Fin z"
      using pt x(1) z(1) by (simp_all add: pt_def plus_Vec3f_def)
    then have r: "flt x = Fin x" "flt z = Fin z" by (auto dest: finite32_plus)
    have "snd res = (pt, Vec3f (Fin 0) (Fin 1) (Fin 0), m\<lparr>diffuse_color := checker_color pt\<rparr>)"
      by (simp add: res sceneIntersect_def st cb)
    then show ?thesis
      using x z checker_color_region [OF r x(2) z(2,3), of py] by (simp add: pt)
  qed
  then show ?thesis by (simp add: Let_def st)
qed

theorem checkerboard_color_rounded_witness:
  "fst (checkerboard (fvec (- (1 / 2 ^ 70)) 0 (- 15)) (fvec 0 (- 1) 0)
            (spheres_loop (fvec (- (1 / 2 ^ 70)) 0 (- 15)) (fvec 0 (- 1) 0) []
               (FLT_MAX, Vec3f_default, Vec3f_default, Material_default))) \<noteq> FLT_MAX
   \<and> fst (snd (sceneIntersect (fvec (- (1 / 2 ^ 70)) 0 (- 15)) (fvec 0 (- 1) 0) []
         Vec3f_default Vec3f_default Material_default)) = fvec (- (1 / 2 ^ 70)) (- 5) (- 15)
   \<and> \<lfloor>- (1 / 2 ^ 70) / 2 + 1000 + 1 / 2 ^ 44 :: real\<rfloor> = 1000
   \<and> \<lfloor>- (1 / 2 ^ 70) / 2 + 1000 :: real\<rfloor> = 999
   \<and> diffuse_color (snd (snd (snd (sceneIntersect (fvec (- (1 / 2 ^ 70)) 0 (- 15))
         (fvec 0 (- 1) 0) [] Vec3f_default Vec3f_default Material_default))))
       = fvec (3 / 10) (3 / 10) (3 / 10)"
proof -
  let ?o = "fvec (- (1 / 2 ^ 70)) 0 (- 15)" and ?d = "fvec 0 (- 1) 0"
  have f1: "flt (1 / 1180591620717411303424) = Fin (1 / 1180591620717411303424)"
    using flt_eval [of "1 / 1180591620717411303424" "- 70" 8388608] by (simp add: round_even_def)
  have cb: "checkerboard ?o ?d (spheres_loop ?o ?d [] (FLT_MAX, Vec3f_default, Vec3f_default, Material_default))
      = (Fin 5, fvec (- (1 / 2 ^ 70)) (- 5) (- 15), fvec 0 1 0,
         Material_default\<lparr>diffuse_color := checker_color (fvec (- (1 / 2 ^ 70)) (- 5) (- 15))\<rparr>)"
    by (simp add: checkerboard_def Let_def FLT_MAX_def plus_Vec3f_def vscale_def f1 flt_uminus)
  have w: "fst (checkerboard ?o ?d
        (spheres_loop ?o ?d [] (FLT_MAX, Vec3f_default, Vec3f_default, Material_default)))
      \<noteq> FLT_MAX"
    unfolding cb by (simp add: FLT_MAX_def)
  have h: "fst (snd (sceneIntersect ?o ?d [] Vec3f_default Vec3f_default Material_default))
      = fvec (- (1 / 2 ^ 70)) (- 5) (- 15)"
    unfolding sceneIntersect_def Let_def cb by simp
  from checkerboard_color_rounded
    [where orig = ?o and dir = ?d and spheres = "[]"
       and hit = Vec3f_default and N = Vec3f_default and mat = Material_default] w
  obtain x z where xz:
    "vx (fst (snd (sceneIntersect ?o ?d [] Vec3f_default Vec3f_default Material_default))) = Fin x"
    "vz (fst (snd (sceneIntersect ?o ?d [] Vec3f_default Vec3f_default Material_default))) = Fin z"
    "diffuse_color (snd (snd (snd (sceneIntersect ?o ?d [] Vec3f_default Vec3f_default
        Material_default))))
      = (if odd (\<lfloor>x / 2 + 1000 + 1 / 2 ^ 44\<rfloor> + \<lceil>z / 2\<rceil>)
         then fvec (3 / 10) (3 / 10) (3 / 10) else fvec (1 / 10) (1 / 10) (1 / 10))"
    unfolding Let_def by blast
  have x: "x = - (1 / 2 ^ 70)" "z = - 15" using xz(1,2) unfolding h by simp_all
  have fl: "\<lfloor>- (1 / 2 ^ 70) / 2 + 1000 + 1 / 2 ^ 44 :: real\<rfloor> = 1000"
    "\<lfloor>- (1 / 2 ^ 70) / 2 + 1000 :: real\<rfloor> = 999" "\<lceil>- 15 / 2 :: real\<rceil> = - 7"
    by (simp_all add: floor_unique ceiling_unique)
  show ?thesis using w h xz(3) fl unfolding x by simp
qed

section \<open>Refraction\<close>

lemma refract_unfold:
  "refract I N eta_t eta_i =
     (if refract_cosi I N < Fin 0 then refract I (- N) eta_i eta_t
      else Some (refract_direct I N eta_t eta_i))"
  by (subst refract.simps) (simp add: refract_cosi_def refract_direct_def refract_k_def Let_def)

lemma dot_uminus_right: "dot I (- N) = - dot I N"
  by (simp add: dot_def uminus_Vec3f_def float_mult_uminus_right float_add_uminus)

lemma refract_cosi_flip:
  assumes "dot I N \<noteq> NaN" "refract_cosi I N < Fin 0"
  shows "\<not> refract_cosi I (- N) < Fin 0"
  using assms
  by (cases "dot I N")
     (auto simp: refract_cosi_def dot_uminus_right std_max_def std_min_def split: if_splits)

lemma refract_cosi_NaN: "dot I N = NaN \<Longrightarrow> refract_cosi I N < Fin 0"
  by (simp add: refract_cosi_def std_max_def std_min_def)

text \<open>
  When the dot product is NaN, \<^verbatim>\<open>std::min(1.f, _)\<close> returns 1, \<^verbatim>\<open>cosi\<close> is \<open>-1\<close>, and the
  activation calls itself with the same dot product: the call does not return.
\<close>

lemma refract_Some_not_NaN:
  assumes r: "refract I N eta_t eta_i = Some v"
  shows "dot I N \<noteq> NaN"
proof (rule refract.raw_induct [where P = "\<lambda>I N eta_t eta_i v. dot I N \<noteq> NaN", OF _ r])
  fix f :: "Vec3f \<Rightarrow> Vec3f \<Rightarrow> float \<Rightarrow> float \<Rightarrow> Vec3f option"
    and I N :: Vec3f and eta_t eta_i :: float and v :: Vec3f
  assume IH: "\<And>I N eta_t eta_i y. f I N eta_t eta_i = Some y \<Longrightarrow> dot I N \<noteq> NaN"
  assume eq: "(let cosi = - std_max (Fin (- 1)) (std_min (Fin 1) (dot I N))
      in if cosi < Fin 0 then f I (- N) eta_i eta_t
         else
           let eta = eta_i / eta_t;
               k = Fin 1 - eta * eta * (Fin 1 - cosi * cosi)
           in Some (if k < Fin 0 then Vec3f (Fin 1) (Fin 0) (Fin 0)
                    else vscale I eta + vscale N (eta * cosi - sqrtf k))) = Some v"
  show "dot I N \<noteq> NaN"
  proof
    assume nan: "dot I N = NaN"
    then have "f I (- N) eta_i eta_t = Some v"
      using eq by (simp add: std_max_def std_min_def Let_def)
    then have "dot I (- N) \<noteq> NaN" by (rule IH)
    then show False using nan by (simp add: dot_uminus_right)
  qed
qed

lemma refract_NaN: "dot I N = NaN \<Longrightarrow> refract I N eta_t eta_i = None"
  using refract_Some_not_NaN [of I N eta_t eta_i] by (cases "refract I N eta_t eta_i") auto

text \<open>
  Claim C8. For every input whose dot product \<open>I \<cdot> N\<close> is a number (so that an
  activation reaches the computation of \<open>k\<close>): when \<open>cosi\<close> is not negative, \<^verbatim>\<open>refract\<close>
  returns the value of its own \<^verbatim>\<open>return\<close> statement without calling itself; when
  \<open>cosi\<close> is negative, the one self-call, with the normal negated and the indices
  swapped, has a non-negative \<open>cosi\<close> and returns without a further call. In both cases a
  negative \<open>k\<close> in the activation that computes it makes the result (1, 0, 0).
\<close>

theorem refract_one_self_call:
  "dot I N \<noteq> NaN \<Longrightarrow>
     (\<not> refract_cosi I N < Fin 0 \<longrightarrow>
        refract I N eta_t eta_i = Some (refract_direct I N eta_t eta_i)
        \<and> (refract_k I N eta_t eta_i < Fin 0 \<longrightarrow>
             refract I N eta_t eta_i = Some (Vec3f (Fin 1) (Fin 0) (Fin 0))))
     \<and> (refract_cosi I N < Fin 0 \<longrightarrow>
          \<not> refract_cosi I (- N) < Fin 0
          \<and> refract I N eta_t eta_i = Some (refract_direct I (- N) eta_i eta_t)
          \<and> (refract_k I (- N) eta_i eta_t < Fin 0 \<longrightarrow>
               refract I N eta_t eta_i = Some (Vec3f (Fin 1) (Fin 0) (Fin 0))))"
proof (intro conjI impI)
  assume d: "dot I N \<noteq> NaN" and c: "\<not> refract_cosi I N < Fin 0"
  show "refract I N eta_t eta_i = Some (refract_direct I N eta_t eta_i)"
    using c by (subst refract_unfold) simp
  show "refract I N eta_t eta_i = Some (Vec3f (Fin 1) (Fin 0) (Fin 0))"
    if "refract_k I N eta_t eta_i < Fin 0"
    using c that by (subst refract_unfold) (simp add: refract_direct_def Let_def)
next
  assume d: "dot I N \<noteq> NaN" and c: "refract_cosi I N < Fin 0"
  from refract_cosi_flip [OF d c] show c': "\<not> refract_cosi I (- N) < Fin 0" .
  have "refract I N eta_t eta_i = refract I (- N) eta_i eta_t"
    using c by (subst refract_unfold) simp
  also have "\<dots> = Some (refract_direct I (- N) eta_i eta_t)"
    using c' by (subst refract_unfold) simp
  finally show r: "refract I N eta_t eta_i = Some (refract_direct I (- N) eta_i eta_t)" .
  show "refract I N eta_t eta_i = Some (Vec3f (Fin 1) (Fin 0) (Fin 0))"
    if "refract_k I (- N) eta_i eta_t < Fin 0"
    using r that by (simp add: refract_direct_def Let_def)
qed

theorem refract_one_self_call_witness:
  "dot (fvec (3 / 5) (- 4 / 5) 0) (fvec 0 1 0) \<noteq> NaN
   \<and> \<not> refract_cosi (fvec (3 / 5) (- 4 / 5) 0) (fvec 0 1 0) < Fin 0
   \<and> refract_k (fvec (3 / 5) (- 4 / 5) 0) (fvec 0 1 0) (Fin (1 / 2)) (Fin 1) < Fin 0
   \<and> refract (fvec (3 / 5) (- 4 / 5) 0) (fvec 0 1 0) (Fin (1 / 2)) (Fin 1) = Some (fvec 1 0 0)
   \<and> dot (fvec (3 / 5) (- 4 / 5) 0) (fvec 0 (- 1) 0) \<noteq> NaN
   \<and> refract_cosi (fvec (3 / 5) (- 4 / 5) 0) (fvec 0 (- 1) 0) < Fin 0
   \<and> refract_k (fvec (3 / 5) (- 4 / 5) 0) (- fvec 0 (- 1) 0) (Fin 1) (Fin 2) < Fin 0
   \<and> refract (fvec (3 / 5) (- 4 / 5) 0) (fvec 0 (- 1) 0) (Fin 2) (Fin 1) = Some (fvec 1 0 0)"
proof -
  have f1: "flt (4 / 5) = Fin (13421773 / 16777216)"
    using flt_eval [of "4 / 5" "- 1" 13421773] by (simp add: round_even_def)
  have f2: "flt (13421773 / 16777216) = Fin (13421773 / 16777216)"
    using flt_eval [of "13421773 / 16777216" "- 1" 13421773] by (simp add: round_even_def)
  have f3: "flt (180143990463529 / 281474976710656) = Fin (10737419 / 16777216)"
    using flt_eval [of "180143990463529 / 281474976710656" "- 1" 10737419] by (simp add: round_even_def)
  have f4: "flt (6039797 / 16777216) = Fin (6039797 / 16777216)"
    using flt_eval [of "6039797 / 16777216" "- 2" 12079594] by (simp add: round_even_def)
  have f5: "flt (6039797 / 4194304) = Fin (6039797 / 4194304)"
    using flt_eval [of "6039797 / 4194304" "0" 12079594] by (simp add: round_even_def)
  have f6: "flt (1845493 / 4194304) = Fin (1845493 / 4194304)"
    using flt_eval [of "1845493 / 4194304" "- 2" 14763944] by (simp add: round_even_def)
  note f = f1 f2 f3 f4 f5 f6 flt_uminus
  show ?thesis
    using refract_one_self_call
        [of "fvec (3 / 5) (- 4 / 5) 0" "fvec 0 1 0" "Fin (1 / 2)" "Fin 1"]
      refract_one_self_call
        [of "fvec (3 / 5) (- 4 / 5) 0" "fvec 0 (- 1) 0" "Fin 2" "Fin 1"]
    by (simp add: dot_def refract_cosi_def refract_k_def refract_direct_def std_max_def
        std_min_def Let_def uminus_Vec3f_def f)
qed

section \<open>Refraction with equal indices\<close>

text \<open>
  With equal, finite, non-zero indices \<^verbatim>\<open>eta\<close> is exactly 1. Where \<^verbatim>\<open>cosi\<close> is 0 or 1
  the square root of \<open>k\<close> is \<^verbatim>\<open>cosi\<close> again, the coefficient of \<open>N\<close> vanishes and the
  activation returns \<open>I\<close>.
\<close>

lemma refract_direct_equal_indices:
  assumes I: "finite32 (vx I)" "finite32 (vy I)" "finite32 (vz I)"
    and N: "fin3 N" and n: "is_fin n" "n \<noteq> Fin 0"
    and c: "refract_cosi I N = Fin 0 \<or> refract_cosi I N = Fin 1"
  shows "refract_direct I N n n = I"
proof -
  obtain a b c where Ie: "I = fvec a b c" and r: "flt a = Fin a" "flt b = Fin b" "flt c = Fin c"
    using I by (cases I) (auto simp: finite32_iff)
  obtain x y z where Ne: "N = fvec x y z" using N by (auto simp: fin3_iff)
  obtain e where e: "n = Fin e" "e \<noteq> 0" using n by (auto simp: is_fin_iff)
  from c show ?thesis
  proof
    assume "refract_cosi I N = Fin 0"
    then show ?thesis
      by (simp add: refract_direct_def refract_k_def Let_def e Ie Ne vscale_def plus_Vec3f_def r)
  next
    assume "refract_cosi I N = Fin 1"
    then show ?thesis
      by (simp add: refract_direct_def refract_k_def Let_def e Ie Ne vscale_def plus_Vec3f_def r)
  qed
qed

lemma refract_cosi_cases:
  assumes "dot I N = Fin 0 \<or> Fin 1 \<le> dot I N \<or> dot I N \<le> Fin (- 1)"
  shows "refract_cosi I N = Fin 0 \<or> refract_cosi I N = Fin 1 \<or> refract_cosi I N = Fin (- 1)"
  using assms by (cases "dot I N") (auto simp: refract_cosi_def std_max_def std_min_def)




section \<open>Local lighting\<close>

text \<open>One turn of the loop over the lights.\<close>

lemma lights_loop_step:
  "lights_loop dir spheres point N mat (l # ls) (d, s)
     = (let light_dir = normalize (position l - point);
            light_distance = norm3 (position l - point);
            shadow_orig = offset_orig light_dir point N;
            r = sceneIntersect shadow_orig light_dir spheres Vec3f_default Vec3f_default
                  Material_default
        in if fst r \<and> norm3 (fst (snd r) - shadow_orig) < light_distance
           then lights_loop dir spheres point N mat ls (d, s)
           else lights_loop dir spheres point N mat ls
                  (d + intensity l * std_max (Fin 0) (dot light_dir N),
                   s + powf (std_max (Fin 0) (dot (- reflect (- light_dir) N) dir))
                         (specular_exponent mat) * intensity l))"
  by (simp add: Let_def split: prod.splits)

lemma lights_loop_unshadowed:
  assumes "normalize (position l - point) = ld" "offset_orig ld point N = so"
    and "\<not> fst (sceneIntersect so ld spheres Vec3f_default Vec3f_default Material_default)"
  shows "lights_loop dir spheres point N mat (l # ls) (d, s)
     = lights_loop dir spheres point N mat ls
         (d + intensity l * std_max (Fin 0) (dot ld N),
          s + powf (std_max (Fin 0) (dot (- reflect (- ld) N) dir)) (specular_exponent mat)
                * intensity l)"
  unfolding lights_loop_step Let_def assms(1,2) using assms(3) by simp

section \<open>The material of a plane hit\<close>

text \<open>
  What the loop over the spheres leaves behind: its initial state when no sphere is hit,
  and otherwise the record of a sphere hit at the final \<^verbatim>\<open>spheres_dist\<close>, below which
  no sphere of the list is hit.
\<close>

lemma spheres_loop_no_hit:
  "\<forall>s\<in>set ss. rayIntersect s orig dir = None \<Longrightarrow> spheres_loop orig dir ss st = st"
proof (induction ss)
  case Nil
  then show ?case by simp
next
  case (Cons s ss)
  obtain sd h n m where st: "st = (sd, h, n, m)" by (cases st)
  from Cons show ?case by (simp add: st)
qed

lemma spheres_loop_winner:
  "spheres_loop orig dir ss (sd, h, n, m) = (sd', h', n', m') \<Longrightarrow>
     (sd' = sd \<and> h' = h \<and> n' = n \<and> m' = m)
     \<or> (\<exists>s\<in>set ss. rayIntersect s orig dir = Some sd' \<and> sd' < sd \<and> m' = material s
           \<and> h' = orig + vscale dir sd' \<and> n' = normalize (h' - center s))"
proof (induction ss arbitrary: sd h n m)
  case Nil
  then show ?case by simp
next
  case (Cons s ss)
  show ?case
  proof (cases "rayIntersect s orig dir")
    case None
    with Cons.prems have "spheres_loop orig dir ss (sd, h, n, m) = (sd', h', n', m')" by simp
    from Cons.IH [OF this] show ?thesis by auto
  next
    case (Some dist_i)
    show ?thesis
    proof (cases "dist_i < sd")
      case True
      let ?h = "orig + vscale dir dist_i"
      from Cons.prems Some True
      have "spheres_loop orig dir ss (dist_i, ?h, normalize (?h - center s), material s)
          = (sd', h', n', m')"
        by (simp add: Let_def)
      from Cons.IH [OF this] show ?thesis
        using Some True by (auto dest: float_less_trans)
    next
      case False
      with Cons.prems Some
      have "spheres_loop orig dir ss (sd, h, n, m) = (sd', h', n', m')" by simp
      from Cons.IH [OF this] show ?thesis by auto
    qed
  qed
qed

lemma spheres_loop_nearest:
  "s \<in> set ss \<Longrightarrow> rayIntersect s orig dir = Some d
     \<Longrightarrow> \<not> d < fst (spheres_loop orig dir ss (sd, h, n, m))"
proof (induction ss arbitrary: sd h n m)
  case Nil
  then show ?case by simp
next
  case (Cons s' ss)
  define st1 where "st1 = (case rayIntersect s' orig dir of
        None \<Rightarrow> (sd, h, n, m)
      | Some dist_i \<Rightarrow>
          if dist_i < sd
          then (dist_i, orig + vscale dir dist_i,
                normalize (orig + vscale dir dist_i - center s'), material s')
          else (sd, h, n, m))"
  have step: "spheres_loop orig dir (s' # ss) (sd, h, n, m) = spheres_loop orig dir ss st1"
    by (simp add: st1_def Let_def split: option.splits)
  obtain sd1 h1 n1 m1 where st1: "st1 = (sd1, h1, n1, m1)" by (cases st1)
  show ?case
  proof (cases "s = s'")
    case True
    with Cons.prems have "\<not> d < sd1"
      using st1 by (auto simp: st1_def split: if_splits)
    moreover have "fst (spheres_loop orig dir ss st1) = sd1
        \<or> fst (spheres_loop orig dir ss st1) < sd1"
      unfolding st1 by (rule spheres_loop_dist)
    ultimately show ?thesis
      unfolding step by (auto dest: float_less_trans)
  next
    case False
    with Cons.prems have "s \<in> set ss" by simp
    from Cons.IH [OF this Cons.prems(2), of sd1 h1 n1 m1] show ?thesis
      unfolding step st1 .
  qed
qed

lemma spheres_loop_some_hit:
  "s \<in> set ss \<Longrightarrow> rayIntersect s orig dir = Some d \<Longrightarrow> d < sd
     \<Longrightarrow> fst (spheres_loop orig dir ss (sd, h, n, m)) < sd"
proof -
  assume a: "s \<in> set ss" "rayIntersect s orig dir = Some d" "d < sd"
  have "\<not> d < fst (spheres_loop orig dir ss (sd, h, n, m))"
    using a(1,2) by (rule spheres_loop_nearest)
  with a(3) spheres_loop_dist [of orig dir ss sd h n m] show ?thesis by auto
qed

text \<open>Beyond the depth limit \<^verbatim>\<open>rayCaster\<close> returns the background.\<close>

lemma rayCaster_past_depth:
  "MAXDEPTH < depth \<Longrightarrow> rayCaster orig dir spheres lights depth = Some BACKGROUNDCOLOR"
  by (subst rayCaster.simps) simp

text \<open>
  Claim C10, as stated, fails for a sphere that the loop does not record. The ray starts
  at the centre of a sphere of radius \<open>2\<^sup>6\<^sup>5\<close>: the square of the radius overflows,
  \<^verbatim>\<open>rayIntersect\<close> reports the hit at an infinite distance, farther than the plane at
  distance 5, and \<^verbatim>\<open>dist_i < spheres_dist\<close> is false against \<^verbatim>\<open>FLT_MAX\<close>. The plane hit
  keeps \<^verbatim>\<open>Material()\<close> and inherits nothing from the sphere.
\<close>

theorem plane_hit_huge_sphere_counterexample:
  "rayIntersect
      \<lparr>center = fvec 0 0 (- 15), radius = Fin (2 ^ 65),
         material = \<lparr>refractive_index = Fin (3 / 2),
                      albedo = Vec4f (Fin 0) (Fin (1 / 2)) (Fin (1 / 10)) (Fin (4 / 5)),
                      diffuse_color = fvec (3 / 5) (7 / 10) (4 / 5),
                      specular_exponent = Fin 125\<rparr>\<rparr>
      (fvec 0 0 (- 15)) (fvec 0 (- 1) 0) = Some PInf
   \<and> Fin 5 < PInf
   \<and> sceneIntersect (fvec 0 0 (- 15)) (fvec 0 (- 1) 0)
        [\<lparr>center = fvec 0 0 (- 15), radius = Fin (2 ^ 65),
           material = \<lparr>refractive_index = Fin (3 / 2),
                        albedo = Vec4f (Fin 0) (Fin (1 / 2)) (Fin (1 / 10)) (Fin (4 / 5)),
                        diffuse_color = fvec (3 / 5) (7 / 10) (4 / 5),
                        specular_exponent = Fin 125\<rparr>\<rparr>]
        Vec3f_default Vec3f_default Material_default
      = (True, fvec 0 (- 5) (- 15), fvec 0 1 0,
         \<lparr>refractive_index = Fin 1,
            albedo = Vec4f (Fin 1) (Fin 0) (Fin 0) (Fin 0),
            diffuse_color = fvec (3 / 10) (3 / 10) (3 / 10),
            specular_exponent = Fin 0\<rparr>)
   \<and> Fin 1 \<noteq> Fin (3 / 2)
   \<and> Vec4f (Fin 1) (Fin 0) (Fin 0) (Fin 0) \<noteq> Vec4f (Fin 0) (Fin (1 / 2)) (Fin (1 / 10)) (Fin (4 / 5))
   \<and> Fin 0 \<noteq> Fin 125"
proof -
  let ?glass = "\<lparr>refractive_index = Fin (3 / 2),
      albedo = Vec4f (Fin 0) (Fin (1 / 2)) (Fin (1 / 10)) (Fin (4 / 5)),
      diffuse_color = fvec (3 / 5) (7 / 10) (4 / 5), specular_exponent = Fin 125\<rparr>"
  have f1: "flt 1361129467683753853853498429727072845824 = PInf" by (simp add: flt_overflow)
  have f2: "dbl (15 / 2) = Fin (15 / 2)"
    using dbl_eval [of "15 / 2" 2 8444249301319680] by (simp add: round_even_def)
  have hit: "rayIntersect \<lparr>center = fvec 0 0 (- 15), radius = Fin 36893488147419103232,
        material = ?glass\<rparr> (fvec 0 0 (- 15)) (fvec 0 (- 1) 0) = Some PInf"
    by (simp add: rayIntersect_def dot_def minus_Vec3f_def Let_def f1 minus_float_def)
  have ck: "checker_color (fvec 0 (- 5) (- 15)) = fvec (3 / 10) (3 / 10) (3 / 10)"
    by (simp add: checker_color_def c_int_def f2 dbl_uminus)
  show ?thesis
    by (simp add: hit sceneIntersect_def checkerboard_def Let_def FLT_MAX_def plus_Vec3f_def
        vscale_def std_min_def ck Material_default_def flt_uminus)
qed

text \<open>
  Claim C10, as amended. In the call of \<^verbatim>\<open>sceneIntersect\<close> that \<^verbatim>\<open>rayCaster\<close> makes (the
  output material starts as \<^verbatim>\<open>Material()\<close>), when the checkerboard plane wins the
  material returned is the one the loop over the spheres left, with only
  \<^verbatim>\<open>diffuse_color\<close> rewritten. If the ray hits no sphere, that is the default material:
  refractive index 1, albedo (1, 0, 0, 0), specular exponent 0. If it hits a sphere at a
  distance below \<^verbatim>\<open>FLT_MAX\<close>, the plane hit carries the refractive index, albedo and
  specular exponent of the nearest sphere hit, which lies beyond the plane. For a hit
  within the depth limit \<^verbatim>\<open>rayCaster\<close> returns what its \<^verbatim>\<open>return\<close> expression gives on
  that material, the point and the normal of the hit, and the colours of the two
  secondary rays.
\<close>

theorem plane_hit_keeps_material:
  "(let st = spheres_loop orig dir spheres
               (FLT_MAX, Vec3f_default, Vec3f_default, Material_default);
        spheres_dist = fst st;
        cb = checkerboard orig dir st;
        distance = - (vy orig + Fin 5) / vy dir;
        pt = orig + vscale dir distance;
        res = sceneIntersect orig dir spheres Vec3f_default Vec3f_default Material_default;
        mat' = snd (snd (snd res))
    in (fst cb \<noteq> FLT_MAX \<longrightarrow>
          mat' = (snd (snd (snd st)))\<lparr>diffuse_color := checker_color pt\<rparr>
          \<and> ((\<forall>s\<in>set spheres. rayIntersect s orig dir = None) \<longrightarrow>
                mat' = Material_default\<lparr>diffuse_color := checker_color pt\<rparr>
                \<and> refractive_index mat' = Fin 1
                \<and> albedo mat' = Vec4f (Fin 1) (Fin 0) (Fin 0) (Fin 0)
                \<and> specular_exponent mat' = Fin 0)
          \<and> ((\<exists>s\<in>set spheres. \<exists>d. rayIntersect s orig dir = Some d \<and> d < FLT_MAX) \<longrightarrow>
                (\<exists>s\<in>set spheres.
                    rayIntersect s orig dir = Some spheres_dist \<and> distance < spheres_dist
                    \<and> (\<forall>s'\<in>set spheres. \<forall>d. rayIntersect s' orig dir = Some d
                           \<longrightarrow> \<not> d < spheres_dist)
                    \<and> mat' = (material s)\<lparr>diffuse_color := checker_color pt\<rparr>
                    \<and> refractive_index mat' = refractive_index (material s)
                    \<and> albedo mat' = albedo (material s)
                    \<and> specular_exponent mat' = specular_exponent (material s))))
       \<and> (depth \<le> MAXDEPTH \<and> fst res \<longrightarrow>
            rayCaster orig dir spheres lights depth
              = (let point = fst (snd res); N' = fst (snd (snd res));
                     reflectDir = normalize (reflect dir N')
                 in Option.bind (refract dir N' (refractive_index mat') (Fin 1)) (\<lambda>refracted.
                    let refractDir = normalize refracted
                    in Option.bind (rayCaster (offset_orig reflectDir point N') reflectDir
                                      spheres lights (depth + 1))
                         (\<lambda>reflectColor.
                    Option.bind (rayCaster (offset_orig refractDir point N') refractDir
                                   spheres lights (depth + 1))
                         (\<lambda>refractColor.
                    Some (combine mat'
                            (lights_loop dir spheres point N' mat' lights (Fin 0, Fin 0))
                            reflectColor refractColor)))))))"
proof -
  let ?st0 = "(FLT_MAX, Vec3f_default, Vec3f_default, Material_default)"
  obtain sd h n m where st: "spheres_loop orig dir spheres ?st0 = (sd, h, n, m)"
    by (cases "spheres_loop orig dir spheres ?st0") auto
  define distance where "distance = - (vy orig + Fin 5) / vy dir"
  define pt where "pt = orig + vscale dir distance"
  define res where
    "res = sceneIntersect orig dir spheres Vec3f_default Vec3f_default Material_default"
  have shade: "rayCaster orig dir spheres lights depth
      = (let point = fst (snd res); N' = fst (snd (snd res));
             reflectDir = normalize (reflect dir N')
         in Option.bind (refract dir N' (refractive_index (snd (snd (snd res)))) (Fin 1))
              (\<lambda>refracted.
            let refractDir = normalize refracted
            in Option.bind (rayCaster (offset_orig reflectDir point N') reflectDir
                              spheres lights (depth + 1))
                 (\<lambda>reflectColor.
            Option.bind (rayCaster (offset_orig refractDir point N') refractDir
                           spheres lights (depth + 1))
                 (\<lambda>refractColor.
            Some (combine (snd (snd (snd res)))
                    (lights_loop dir spheres point N' (snd (snd (snd res))) lights (Fin 0, Fin 0))
                    reflectColor refractColor)))))"
    if "depth \<le> MAXDEPTH" "fst res"
    using that
    by (subst rayCaster.simps) (auto simp: Let_def res_def [symmetric] split: prod.splits)
  have win: "snd (snd (snd res)) = m\<lparr>diffuse_color := checker_color pt\<rparr> \<and> distance < sd"
    if "fst (checkerboard orig dir (sd, h, n, m)) \<noteq> FLT_MAX"
    using that
    by (auto simp: res_def sceneIntersect_def st checkerboard_cases Let_def pt_def
        distance_def split: if_splits)
  have none: "m = Material_default"
    if "\<forall>s\<in>set spheres. rayIntersect s orig dir = None"
    using spheres_loop_no_hit [OF that, of ?st0] st by simp
  have some: "\<exists>s\<in>set spheres. rayIntersect s orig dir = Some sd
        \<and> (\<forall>s'\<in>set spheres. \<forall>d. rayIntersect s' orig dir = Some d \<longrightarrow> \<not> d < sd)
        \<and> m = material s"
    if "\<exists>s\<in>set spheres. \<exists>d. rayIntersect s orig dir = Some d \<and> d < FLT_MAX"
  proof -
    from that obtain s d where s: "s \<in> set spheres" "rayIntersect s orig dir = Some d"
      "d < FLT_MAX" by blast
    from spheres_loop_some_hit [OF s, of Vec3f_default Vec3f_default Material_default]
    have "sd < FLT_MAX" by (simp add: st)
    with spheres_loop_winner [OF st]
    obtain w where w: "w \<in> set spheres" "rayIntersect w orig dir = Some sd" "m = material w"
      by auto
    have "\<not> d' < sd" if "s' \<in> set spheres" "rayIntersect s' orig dir = Some d'" for s' d'
      using spheres_loop_nearest [OF that, of FLT_MAX Vec3f_default Vec3f_default
          Material_default]
      by (simp add: st)
    with w show ?thesis by blast
  qed
  have inherit: "\<exists>s\<in>set spheres.
        rayIntersect s orig dir = Some sd \<and> distance < sd
        \<and> (\<forall>s'\<in>set spheres. \<forall>d. rayIntersect s' orig dir = Some d \<longrightarrow> \<not> d < sd)
        \<and> snd (snd (snd res)) = (material s)\<lparr>diffuse_color := checker_color pt\<rparr>
        \<and> refractive_index (snd (snd (snd res))) = refractive_index (material s)
        \<and> albedo (snd (snd (snd res))) = albedo (material s)
        \<and> specular_exponent (snd (snd (snd res))) = specular_exponent (material s)"
    if w: "fst (checkerboard orig dir (sd, h, n, m)) \<noteq> FLT_MAX"
      and e: "\<exists>s\<in>set spheres. \<exists>d. rayIntersect s orig dir = Some d \<and> d < FLT_MAX"
  proof -
    from some [OF e] obtain s where s: "s \<in> set spheres" "rayIntersect s orig dir = Some sd"
      "\<forall>s'\<in>set spheres. \<forall>d. rayIntersect s' orig dir = Some d \<longrightarrow> \<not> d < sd"
      "m = material s" by blast
    show ?thesis
      using win [OF w] s by (intro bexI [of _ s]) simp_all
  qed
  have default: "snd (snd (snd res)) = Material_default\<lparr>diffuse_color := checker_color pt\<rparr>
        \<and> refractive_index (snd (snd (snd res))) = Fin 1
        \<and> albedo (snd (snd (snd res))) = Vec4f (Fin 1) (Fin 0) (Fin 0) (Fin 0)
        \<and> specular_exponent (snd (snd (snd res))) = Fin 0"
    if w: "fst (checkerboard orig dir (sd, h, n, m)) \<noteq> FLT_MAX"
      and e: "\<forall>s\<in>set spheres. rayIntersect s orig dir = None"
    using win [OF w] none [OF e] by (simp add: Material_default_def)
  show ?thesis
    unfolding Let_def st fst_conv snd_conv distance_def [symmetric] pt_def [symmetric]
      res_def [symmetric]
    using shade [unfolded Let_def] win default inherit by blast
qed



theorem plane_hit_keeps_material_witness:
  "rayIntersect
      \<lparr>center = fvec 0 (- 9) (- 15), radius = Fin 1,
         material = \<lparr>refractive_index = Fin (3 / 2),
                      albedo = Vec4f (Fin 0) (Fin (1 / 2)) (Fin (1 / 10)) (Fin (4 / 5)),
                      diffuse_color = fvec (3 / 5) (7 / 10) (4 / 5),
                      specular_exponent = Fin 125\<rparr>\<rparr>
      (fvec 0 0 (- 15)) (fvec 0 (- 1) 0) = Some (Fin 8)
   \<and> Fin 8 < FLT_MAX
   \<and> sceneIntersect (fvec 0 0 (- 15)) (fvec 0 (- 1) 0)
        [\<lparr>center = fvec 0 (- 9) (- 15), radius = Fin 1,
           material = \<lparr>refractive_index = Fin (3 / 2),
                        albedo = Vec4f (Fin 0) (Fin (1 / 2)) (Fin (1 / 10)) (Fin (4 / 5)),
                        diffuse_color = fvec (3 / 5) (7 / 10) (4 / 5),
                        specular_exponent = Fin 125\<rparr>\<rparr>]
        Vec3f_default Vec3f_default Material_default
      = (True, fvec 0 (- 5) (- 15), fvec 0 1 0,
         \<lparr>refractive_index = Fin (3 / 2),
            albedo = Vec4f (Fin 0) (Fin (1 / 2)) (Fin (1 / 10)) (Fin (4 / 5)),
            diffuse_color = fvec (3 / 10) (3 / 10) (3 / 10),
            specular_exponent = Fin 125\<rparr>)
   \<and> sceneIntersect (fvec 0 0 (- 15)) (fvec 0 (- 1) 0) []
        Vec3f_default Vec3f_default Material_default
      = (True, fvec 0 (- 5) (- 15), fvec 0 1 0,
         \<lparr>refractive_index = Fin 1,
            albedo = Vec4f (Fin 1) (Fin 0) (Fin 0) (Fin 0),
            diffuse_color = fvec (3 / 10) (3 / 10) (3 / 10),
            specular_exponent = Fin 0\<rparr>)
   \<and> rayCaster (fvec 0 0 (- 15)) (fvec 0 (- 1) 0) []
        [\<lparr>position = fvec 0 3 (- 15), intensity = Fin 1\<rparr>] 10
      = Some (fvec (5033165 / 16777216) (5033165 / 16777216) (5033165 / 16777216))"
proof -
  let ?glass = "\<lparr>refractive_index = Fin (3 / 2),
      albedo = Vec4f (Fin 0) (Fin (1 / 2)) (Fin (1 / 10)) (Fin (4 / 5)),
      diffuse_color = fvec (3 / 5) (7 / 10) (4 / 5), specular_exponent = Fin 125\<rparr>"
  let ?s = "\<lparr>center = fvec 0 (- 9) (- 15), radius = Fin 1, material = ?glass\<rparr>"
  let ?o = "fvec 0 0 (- 15)" and ?d = "fvec 0 (- 1) 0"
  let ?pt = "fvec 0 (- 5) (- 15)" and ?N = "fvec 0 1 0"
  let ?l = "\<lparr>position = fvec 0 3 (- 15), intensity = Fin 1\<rparr>"
  let ?m = "Material_default\<lparr>diffuse_color := fvec (3 / 10) (3 / 10) (3 / 10)\<rparr>"
  have f1: "dbl (15 / 2) = Fin (15 / 2)"
    using dbl_eval [of "15 / 2" "2" 8444249301319680] by (simp add: round_even_def)
  have f2: "dbl (1 / 1000) = Fin (1152921504606847 / 1152921504606846976)"
    using dbl_eval [of "1 / 1000" "- 10" 4611686018427388] by (simp add: round_even_def)
  have f3: "dbl (1152921504606847 / 1152921504606846976) = Fin (1152921504606847 / 1152921504606846976)"
    using dbl_eval [of "1152921504606847 / 1152921504606846976" "- 10" 4611686018427388] by (simp add: round_even_def)
  have f4: "flt (1152921504606847 / 1152921504606846976) = Fin (8589935 / 8589934592)"
    using flt_eval [of "1152921504606847 / 1152921504606846976" "- 10" 8589935] by (simp add: round_even_def)
  have f5: "flt (42941083025 / 8589934592) = Fin (10483663 / 2097152)"
    using flt_eval [of "42941083025 / 8589934592" "2" 10483663] by (simp add: round_even_def)
  have f7: "flt (1 / 8) = Fin (1 / 8)"
    using flt_eval [of "1 / 8" "- 3" 8388608] by (simp add: round_even_def)
  have f8: "flt (2097 / 2097152) = Fin (2097 / 2097152)"
    using flt_eval [of "2097 / 2097152" "- 10" 8589312] by (simp add: round_even_def)
  have f9: "flt (3 / 10) = Fin (5033165 / 16777216)"
    using flt_eval [of "3 / 10" "- 2" 10066330] by (simp add: round_even_def)
  have f10: "flt (5033165 / 16777216) = Fin (5033165 / 16777216)"
    using flt_eval [of "5033165 / 16777216" "- 2" 10066330] by (simp add: round_even_def)
  have s1: "sqrt 64 = 8" by (rule real_sqrt_unique) (simp_all add: power2_eq_square)
  have hit: "rayIntersect ?s ?o ?d = Some (Fin 8)"
    by (simp add: rayIntersect_def dot_def minus_Vec3f_def Let_def flt_uminus)
  have ck: "checker_color ?pt = fvec (3 / 10) (3 / 10) (3 / 10)"
    by (simp add: checker_color_def c_int_def f1 dbl_uminus)
  from plane_hit_keeps_material
    [where orig = ?o and dir = ?d and spheres = "[?s]"]
  have a: "snd (snd (snd (sceneIntersect ?o ?d [?s] Vec3f_default Vec3f_default Material_default)))
      = ?glass\<lparr>diffuse_color := fvec (3 / 10) (3 / 10) (3 / 10)\<rparr>"
    by (simp add: Let_def hit checkerboard_def FLT_MAX_def plus_Vec3f_def vscale_def ck
        flt_uminus)
  from plane_hit_keeps_material
    [where orig = ?o and dir = ?d and spheres = "[]"]
  have b: "snd (snd (snd (sceneIntersect ?o ?d [] Vec3f_default Vec3f_default Material_default)))
      = ?m"
    by (simp add: Let_def checkerboard_def FLT_MAX_def plus_Vec3f_def vscale_def ck flt_uminus)
  have c: "fst (sceneIntersect ?o ?d sp Vec3f_default Vec3f_default Material_default) = True
      \<and> fst (snd (sceneIntersect ?o ?d sp Vec3f_default Vec3f_default Material_default)) = ?pt
      \<and> fst (snd (snd (sceneIntersect ?o ?d sp Vec3f_default Vec3f_default Material_default)))
          = ?N"
    if "sp = [?s] \<or> sp = []" for sp
    using that
    by (auto simp: sceneIntersect_def Let_def hit checkerboard_def FLT_MAX_def plus_Vec3f_def
        vscale_def std_min_def flt_uminus)
  have si: "sceneIntersect ?o ?d [] Vec3f_default Vec3f_default Material_default
      = (True, ?pt, ?N, ?m)"
    using b c [of "[]"] by (simp add: prod_eq_iff)
  have rd: "normalize (reflect ?d ?N) = ?N"
    by (simp add: reflect_def normalize_def norm3_def dot_def vscale_def minus_Vec3f_def
        flt_uminus minus_float_def)
  have rf: "refract ?d ?N (Fin 1) (Fin 1) = Some ?d"
    by (subst refract.simps)
       (simp add: dot_def std_max_def std_min_def Let_def vscale_def plus_Vec3f_def flt_uminus
          minus_float_def)
  have nd: "normalize ?d = ?d"
    by (simp add: normalize_def norm3_def vscale_def flt_uminus)
  have ld: "normalize (position ?l - ?pt) = ?N" "norm3 (position ?l - ?pt) = Fin 8"
    by (simp_all add: normalize_def norm3_def vscale_def minus_Vec3f_def minus_float_def s1 f7)
  have so: "offset_orig ?N ?pt ?N = fvec 0 (- (10483663 / 2097152)) (- 15)"
    by (simp add: offset_orig_def dot_def vscale_double_def plus_Vec3f_def f2 f3 f4 f5
        flt_uminus)
  have sh: "fst (sceneIntersect (fvec 0 (- (10483663 / 2097152)) (- 15)) ?N []
      Vec3f_default Vec3f_default Material_default) = False"
    by (simp add: sceneIntersect_def checkerboard_def Let_def FLT_MAX_def std_min_def f8
        flt_uminus)
  have sh': "\<not> fst (sceneIntersect (fvec 0 (- (10483663 / 2097152)) (- 15)) ?N []
      Vec3f_default Vec3f_default Material_default)"
    using sh by simp
  have ar: "Fin 0 + intensity ?l * std_max (Fin 0) (dot ?N ?N) = Fin 1"
    "Fin 0 + powf (std_max (Fin 0) (dot (- reflect (- ?N) ?N) ?d)) (specular_exponent ?m)
        * intensity ?l = Fin 1"
    by (simp_all add: dot_def reflect_def vscale_def minus_Vec3f_def uminus_Vec3f_def
        std_max_def powf_def Material_default_def flt_uminus minus_float_def)
  have ll: "lights_loop ?d [] ?pt ?N ?m [?l] (Fin 0, Fin 0) = (Fin 1, Fin 1)"
    unfolding lights_loop_unshadowed [OF ld(1) so sh'] ar by simp
  have cm: "combine ?m (Fin 1, Fin 1) BACKGROUNDCOLOR BACKGROUNDCOLOR
      = fvec (5033165 / 16777216) (5033165 / 16777216) (5033165 / 16777216)"
    by (simp add: combine_def Material_default_def BACKGROUNDCOLOR_def vscale_def plus_Vec3f_def
        f9 f10)
  have ch: "rayCaster p q [] [?l] 11 = Some BACKGROUNDCOLOR" for p q
    by (rule rayCaster_past_depth) (simp add: MAXDEPTH_def)
  have ri: "refractive_index Material_default = Fin 1" by (simp add: Material_default_def)
  from plane_hit_keeps_material
    [where orig = ?o and dir = ?d and spheres = "[]" and depth = 10 and lights = "[?l]"]
  have "rayCaster ?o ?d [] [?l] 10
      = Some (fvec (5033165 / 16777216) (5033165 / 16777216) (5033165 / 16777216))"
    unfolding Let_def si fst_conv snd_conv
    by (simp add: MAXDEPTH_def rd rf nd ch ll cm ri del: lights_loop.simps)
  then show ?thesis
    using a b c [of "[?s]"] c [of "[]"]
    by (simp add: prod_eq_iff hit FLT_MAX_def Material_default_def)
qed

section \<open>Tone mapping and quantization\<close>

lemma std_max_Fin: "std_max (Fin a) (Fin b) = Fin (max a b)"
  by (simp add: std_max_def max_def)

lemma std_min_Fin: "std_min (Fin a) (Fin b) = Fin (min a b)"
  by (simp add: std_min_def min_def)

lemma clamp01_range: "\<exists>x. clamp01 f = Fin x \<and> 0 \<le> x \<and> x \<le> 1"
  by (cases f) (auto simp: clamp01_def std_max_def std_min_def)

lemma clamp01_Fin: "clamp01 (Fin v) = Fin (max 0 (min 1 v))"
  by (simp add: clamp01_def std_max_Fin std_min_Fin)

lemma channel_byte_value:
  assumes "clamp01 f = Fin x" "0 \<le> x" "x \<le> 1"
  shows "\<exists>v. Fin 255 * clamp01 f = Fin v \<and> 0 \<le> v \<and> v \<le> 255
           \<and> channel_byte f = word_of_int \<lfloor>v\<rfloor>
           \<and> unat (channel_byte f) = nat \<lfloor>v\<rfloor> \<and> unat (channel_byte f) \<le> 255"
proof -
  have "0 \<le> 255 * x" "255 * x \<le> of_int 255" using assms by auto
  from flt_unit_range [OF this]
  obtain v where v: "flt (255 * x) = Fin v" "0 \<le> v" "v \<le> 255" by auto
  have p: "Fin 255 * clamp01 f = Fin v" by (simp add: assms(1) v(1))
  have "v < 2 ^ 31" "- (2 ^ 31) - 1 < v" using v by auto
  with v have c: "channel_byte f = word_of_int \<lfloor>v\<rfloor>"
    unfolding channel_byte_def p by (simp add: c_int_def)
  have f: "0 \<le> \<lfloor>v\<rfloor>" "\<lfloor>v\<rfloor> \<le> 255"
    using v by (auto simp: floor_le_iff le_floor_iff)
  then have "uint (word_of_int \<lfloor>v\<rfloor> :: 8 word) = \<lfloor>v\<rfloor>"
    by (simp add: uint_word_of_int_eq take_bit_int_eq_self)
  then have u: "unat (channel_byte f) = nat \<lfloor>v\<rfloor>"
    by (simp add: c unat_eq_nat_uint)
  have "nat \<lfloor>v\<rfloor> \<le> 255" using f by linarith
  then have "unat (channel_byte f) \<le> 255" by (simp only: u)
  then show ?thesis using p v c u by blast
qed

lemma reciprocal_range:
  assumes "1 < m"
  shows "\<exists>q. double_divide (Fin 1) (Fin m) = Fin q \<and> 0 \<le> q \<and> q \<le> 1"
proof -
  have "0 \<le> 1 / m" "1 / m \<le> of_int 1" using assms by simp_all
  from dbl_unit_range [OF this] show ?thesis using assms by auto
qed

text \<open>
  Rounding decides a byte: for this pixel the quotient \<open>255 g / max\<close> is just below 121,
  and the program, which multiplies by the rounded reciprocal and by 255 in floating
  point, writes 121.
\<close>

lemma pixel_bytes_rounded:
  "pixel_bytes (fvec (3770605 / 2097152) (1789189 / 2097152) 0) = [255, 121, 0]"
proof -
  have f1: "dbl (2097152 / 3770605) = Fin (5009664478638993 / 9007199254740992)"
    using dbl_eval [of "2097152 / 3770605" "- 1" 5009664478638993] by (simp add: round_even_def)
  have f2: "dbl (18889465931478580200765 / 18889465931478580854784) = Fin (1)"
    using dbl_eval [of "18889465931478580200765 / 18889465931478580854784" "- 1" 9007199254740992] by (simp add: round_even_def)
  have f3: "dbl (8963236578871621246677 / 18889465931478580854784) = Fin (1068501064642861 / 2251799813685248)"
    using dbl_eval [of "8963236578871621246677 / 18889465931478580854784" "- 2" 8548008517142888] by (simp add: round_even_def)
  have f4: "flt (1068501064642861 / 2251799813685248) = Fin (15921907 / 33554432)"
    using flt_eval [of "1068501064642861 / 2251799813685248" "- 2" 15921907] by (simp add: round_even_def)
  have f5: "flt (4060086285 / 33554432) = Fin (121)"
    using flt_eval [of "4060086285 / 33554432" "6" 15859712] by (simp add: round_even_def)
  show ?thesis
    by (simp add: pixel_bytes_def tone_map_def Let_def std_max_Fin vscale_double_def
        channel_byte_def clamp01_Fin c_int_def f1 f2 f3 f4 f5)
qed



section \<open>Return of rayCaster\<close>

text \<open>
  A sphere of radius \<open>2\<^sup>-\<^sup>2\<^sup>7\<close> centred on the ray, five units ahead: the entry distance
  \<open>5 - 2\<^sup>-\<^sup>2\<^sup>7\<close> rounds to 5, the hit point is the centre itself, and the normal is the
  normalized zero vector, whose components are \<open>0 * (1 / 0)\<close>, that is NaN.
\<close>

lemma sceneIntersect_small_sphere:
  "sceneIntersect (fvec 0 0 0) (fvec 0 0 (- 1))
     [\<lparr>center = fvec 0 0 (- 5), radius = Fin (1 / 134217728), material = m\<rparr>]
     Vec3f_default Vec3f_default Material_default
   = (True, fvec 0 0 (- 5), Vec3f NaN NaN NaN, m)"
proof -
  have f1: "flt (1 / 18014398509481984) = Fin (1 / 18014398509481984)"
    using flt_eval [of "1 / 18014398509481984" "- 54" 8388608] by (simp add: round_even_def)
  have f2: "flt (1 / 134217728) = Fin (1 / 134217728)"
    using flt_eval [of "1 / 134217728" "- 27" 8388608] by (simp add: round_even_def)
  have f3: "flt (671088639 / 134217728) = Fin 5"
    using flt_eval [of "671088639 / 134217728" "2" 10485760] by (simp add: round_even_def)
  have f4: "flt (671088641 / 134217728) = Fin 5"
    using flt_eval [of "671088641 / 134217728" "2" 10485760] by (simp add: round_even_def)
  have s1: "sqrt (1 / 18014398509481984) = 1 / 134217728"
    by (rule real_sqrt_unique) (simp_all add: power2_eq_square)
  have r: "rayIntersect \<lparr>center = fvec 0 0 (- 5), radius = Fin (1 / 134217728), material = m\<rparr>
             (fvec 0 0 0) (fvec 0 0 (- 1)) = Some (Fin 5)"
    by (simp add: rayIntersect_def dot_def minus_Vec3f_def Let_def f1 f2 f3 f4 s1 flt_uminus)
  show ?thesis
    by (simp add: sceneIntersect_def checkerboard_def r Let_def FLT_MAX_def
        plus_Vec3f_def minus_Vec3f_def vscale_def std_min_def normalize_def norm3_def flt_uminus)
qed

text \<open>
  Claim C5 asks that \<^verbatim>\<open>rayCaster\<close> return for every input. On this scene, a sphere of
  positive radius met by a unit direction from the origin, it does not, whatever the
  material and the lights: \<^verbatim>\<open>refract\<close> receives the NaN normal, \<^verbatim>\<open>std::min(1.f, _)\<close>
  returns 1 on the NaN dot product, \<^verbatim>\<open>cosi\<close> is \<open>-1\<close> in every activation, and
  \<^verbatim>\<open>refract\<close> calls itself without end.
\<close>

theorem rayCaster_small_sphere_no_return:
  "Fin 0 < Fin (1 / 2 ^ 27)
   \<and> dot (fvec 0 0 (- 1)) (fvec 0 0 (- 1)) = Fin 1
   \<and> rayCaster (fvec 0 0 0) (fvec 0 0 (- 1))
        [\<lparr>center = fvec 0 0 (- 5), radius = Fin (1 / 2 ^ 27), material = m\<rparr>] lights 0
      = None"
proof -
  have "dot (fvec 0 0 (- 1)) (Vec3f NaN NaN NaN) = NaN" by (simp add: dot_def)
  then have "refract (fvec 0 0 (- 1)) (Vec3f NaN NaN NaN) e (Fin 1) = None" for e
    by (rule refract_NaN)
  then have "rayCaster (fvec 0 0 0) (fvec 0 0 (- 1))
        [\<lparr>center = fvec 0 0 (- 5), radius = Fin (1 / 134217728), material = m\<rparr>] lights 0
      = None"
    by (subst rayCaster.simps) (simp add: sceneIntersect_small_sphere MAXDEPTH_def)
  then show ?thesis by (simp add: dot_def)
qed

end
